theory Spec2Isabelle
  imports Complex_Main
begin

section \<open>Time values of the host language\<close>

text \<open>
  A JavaScript \<open>Date\<close> holds a time value: milliseconds since the epoch, UTC.  The
  components consulted by the source are \<open>getTime\<close>, the local calendar fields
  \<open>getFullYear\<close>, \<open>getMonth\<close>, \<open>getDate\<close>, the UTC hour \<open>getUTCHours\<close>, and the two
  constructors \<open>Date.UTC(y, m, d, h, mi, s)\<close> and \<open>new Date(y, m, d)\<close> (local time).
  An invalid date (time value \<open>NaN\<close>) is \<open>None\<close>; every comparison with it is false.
\<close>

type_synonym timeValue = "int option"

definition msPerDay :: int where
  "msPerDay = 86400000"

definition msPerHour :: int where
  "msPerHour = 3600000"

definition js_le :: "timeValue \<Rightarrow> timeValue \<Rightarrow> bool" where
  "js_le a b = (case a of None \<Rightarrow> False | Some x \<Rightarrow> (case b of None \<Rightarrow> False | Some y \<Rightarrow> x \<le> y))"

definition js_lt :: "timeValue \<Rightarrow> timeValue \<Rightarrow> bool" where
  "js_lt a b = (case a of None \<Rightarrow> False | Some x \<Rightarrow> (case b of None \<Rightarrow> False | Some y \<Rightarrow> x < y))"

definition js_gt :: "timeValue \<Rightarrow> timeValue \<Rightarrow> bool" where
  "js_gt a b = js_lt b a"

text \<open>
  Day number of the first day of month \<open>m\<close> (0-based, any integer: months carry into
  years) of year \<open>y\<close>, plus \<open>d - 1\<close>: the language's \<open>MakeDay\<close>, computed on the
  proleptic Gregorian calendar with years counted from March.
\<close>

definition MakeDay :: "int \<Rightarrow> int \<Rightarrow> int \<Rightarrow> int" where
  "MakeDay year month date =
     (let ym = year + month div 12;
          mn = month mod 12;
          y = (if mn < 2 then ym - 1 else ym);
          era = y div 400;
          yoe = y - era * 400;
          mp = (if mn < 2 then mn + 10 else mn - 2);
          doy = (153 * mp + 2) div 5;
          doe = yoe * 365 + yoe div 4 - yoe div 100 + doy
      in era * 146097 + doe - 719468 + (date - 1))"

text \<open>The calendar fields \<open>(year, month 0..11, day of month 1..31)\<close> of a day number.\<close>

definition civilFromDay :: "int \<Rightarrow> int \<times> int \<times> int" where
  "civilFromDay z0 =
     (let z = z0 + 719468;
          era = z div 146097;
          doe = z - era * 146097;
          yoe = (doe - doe div 1460 + doe div 36524 - doe div 146096) div 365;
          doy = doe - (365 * yoe + yoe div 4 - yoe div 100);
          mp = (5 * doy + 2) div 153;
          d = doy - (153 * mp + 2) div 5 + 1;
          mn = (if mp < 10 then mp + 2 else mp - 10);
          y = yoe + era * 400
      in ((if mn < 2 then y + 1 else y), mn, d))"

definition timeClip :: "int \<Rightarrow> timeValue" where
  "timeClip t = (if \<bar>t\<bar> > 8640000000000000 then None else Some t)"

text \<open>Both constructors read a year from 0 to 99 as 1900 + year.\<close>

definition fullYear :: "int \<Rightarrow> int" where
  "fullYear y = (if 0 \<le> y \<and> y \<le> 99 then 1900 + y else y)"

definition DateUTC :: "int \<Rightarrow> int \<Rightarrow> int \<Rightarrow> int \<Rightarrow> int \<Rightarrow> int \<Rightarrow> timeValue" where
  "DateUTC y m d h mi s =
     timeClip (MakeDay (fullYear y) m d * msPerDay + (h * msPerHour + mi * 60000 + s * 1000))"

text \<open>
  The host's time zone: the offset (ms) of local time from UTC, in effect at a UTC time
  value and at a local wall-clock time value.  A zone without daylight saving has both
  constant and equal.
\<close>

record timeZone =
  offsetAtUtc :: "int \<Rightarrow> int"
  offsetAtLocal :: "int \<Rightarrow> int"

definition fixedZone :: "int \<Rightarrow> timeZone" where
  "fixedZone off = \<lparr> offsetAtUtc = (\<lambda>_. off), offsetAtLocal = (\<lambda>_. off) \<rparr>"

definition localTime :: "timeZone \<Rightarrow> int \<Rightarrow> int" where
  "localTime tz t = t + offsetAtUtc tz t"

definition getFullYear :: "timeZone \<Rightarrow> int \<Rightarrow> int" where
  "getFullYear tz t = fst (civilFromDay (localTime tz t div msPerDay))"

definition getMonth :: "timeZone \<Rightarrow> int \<Rightarrow> int" where
  "getMonth tz t = fst (snd (civilFromDay (localTime tz t div msPerDay)))"

definition getDate :: "timeZone \<Rightarrow> int \<Rightarrow> int" where
  "getDate tz t = snd (snd (civilFromDay (localTime tz t div msPerDay)))"

definition getUTCHours :: "int \<Rightarrow> int" where
  "getUTCHours t = (t mod msPerDay) div msPerHour"

text \<open>\<open>new Date(y, m, d)\<close>: local midnight of a calendar date, as a time value.\<close>

definition newDateLocal :: "timeZone \<Rightarrow> int \<Rightarrow> int \<Rightarrow> int \<Rightarrow> timeValue" where
  "newDateLocal tz y m d =
     (let t = MakeDay (fullYear y) m d * msPerDay in timeClip (t - offsetAtLocal tz t))"

section \<open>Slot status (components/time-slot-grid.tsx)\<close>

datatype SlotStatus = available | yours | unavailable | past | disabled

record SlotInfo =
  status :: SlotStatus
  bookingId :: "string option"

text \<open>
  A booking as the grid reads it.  \<open>startUtc\<close> and \<open>endUtc\<close> are the strings of the
  ledger; the grid turns them into dates with \<open>new Date(string)\<close>, whose parser belongs
  to the host and is the parameter \<open>dateParse\<close> below (\<open>None\<close> for an invalid date).
\<close>

record Booking =
  idB :: string
  userId :: string
  resourceId :: string
  startUtc :: string
  endUtc :: string
  bookingStatus :: string

text \<open>Decimal rendering of an integer, as a template literal or \<open>String(h)\<close> gives it.\<close>

definition digitChar :: "nat \<Rightarrow> char" where
  "digitChar n = char_of (48 + n)"

fun showNat :: "nat \<Rightarrow> string" where
  "showNat n = (if n < 10 then [digitChar n] else showNat (n div 10) @ [digitChar (n mod 10)])"

declare showNat.simps [simp del]

definition showInt :: "int \<Rightarrow> string" where
  "showInt i = (if i < 0 then CHR ''-'' # showNat (nat (- i)) else showNat (nat i))"

definition slotStart :: "timeZone \<Rightarrow> int \<Rightarrow> int \<Rightarrow> timeValue" where
  "slotStart tz selectedDate hour =
     DateUTC (getFullYear tz selectedDate) (getMonth tz selectedDate) (getDate tz selectedDate) hour 0 0"

definition slotEnd :: "timeZone \<Rightarrow> int \<Rightarrow> int \<Rightarrow> timeValue" where
  "slotEnd tz selectedDate hour =
     DateUTC (getFullYear tz selectedDate) (getMonth tz selectedDate) (getDate tz selectedDate) (hour + 1) 0 0"

text \<open>The test of the loop body: the booking is an active one of this resource and overlaps the slot.\<close>

definition ownsSlot :: "(string \<Rightarrow> timeValue) \<Rightarrow> string \<Rightarrow> timeValue \<Rightarrow> timeValue \<Rightarrow> Booking \<Rightarrow> bool" where
  "ownsSlot dateParse rid sStart sEnd booking =
     (resourceId booking = rid \<and> bookingStatus booking = ''Active'' \<and>
      js_lt sStart (dateParse (endUtc booking)) \<and> js_gt sEnd (dateParse (startUtc booking)))"

text \<open>The \<open>for (const booking of userBookings)\<close> loop: the first booking passing the test.\<close>

fun firstOwn :: "(string \<Rightarrow> timeValue) \<Rightarrow> string \<Rightarrow> timeValue \<Rightarrow> timeValue \<Rightarrow> Booking list \<Rightarrow> Booking option" where
  "firstOwn dateParse rid sStart sEnd [] = None"
| "firstOwn dateParse rid sStart sEnd (b # bs) =
     (if ownsSlot dateParse rid sStart sEnd b then Some b else firstOwn dateParse rid sStart sEnd bs)"

definition getSlotStatus ::
  "timeZone \<Rightarrow> (string \<Rightarrow> timeValue) \<Rightarrow> int \<Rightarrow>
   string \<Rightarrow> int \<Rightarrow> int \<Rightarrow> Booking list \<Rightarrow> string set \<Rightarrow> bool \<Rightarrow> SlotInfo" where
  "getSlotStatus tz dateParse now rid hour selectedDate userBookings availableSet isBookable =
     (if js_le (slotEnd tz selectedDate hour) (Some now) then \<lparr> status = past, bookingId = None \<rparr>
      else if \<not> isBookable then \<lparr> status = disabled, bookingId = None \<rparr>
      else (case firstOwn dateParse rid (slotStart tz selectedDate hour) (slotEnd tz selectedDate hour) userBookings of
              Some booking \<Rightarrow> \<lparr> status = yours, bookingId = Some (idB booking) \<rparr>
            | None \<Rightarrow>
                (if rid @ ''_'' @ showInt hour \<in> availableSet
                 then \<lparr> status = available, bookingId = None \<rparr>
                 else \<lparr> status = unavailable, bookingId = None \<rparr>)))"

section \<open>Booking horizon (components/date-navigator.tsx, dashboard page)\<close>

text \<open>
  \<open>diff\<close> is the quotient of two time values, a fraction of days; a comparison with an
  invalid date's \<open>NaN\<close> is false.
\<close>

definition isBookableDate :: "timeZone \<Rightarrow> int \<Rightarrow> int \<Rightarrow> bool" where
  "isBookableDate tz now date =
     (case newDateLocal tz (getFullYear tz now) (getMonth tz now) (getDate tz now) of
        None \<Rightarrow> False
      | Some today \<Rightarrow>
          (case newDateLocal tz (getFullYear tz date) (getMonth tz date) (getDate tz date) of
             None \<Rightarrow> False
           | Some target \<Rightarrow>
               (let diff = (of_int (target - today) :: rat) / of_int msPerDay
                in diff \<ge> 0 \<and> diff \<le> 3)))"

text \<open>The local calendar date of a time value, as a day number.\<close>

definition calendarDay :: "timeZone \<Rightarrow> int \<Rightarrow> int" where
  "calendarDay tz t = MakeDay (fullYear (getFullYear tz t)) (getMonth tz t) (getDate tz t)"

section \<open>Values parsed from JSON\<close>

text \<open>
  What \<open>JSON.parse\<close> can return.  A property read yields a value or \<open>undefined\<close>
  (\<open>None\<close>); reading a property of \<open>null\<close> raises a \<open>TypeError\<close>.  Numbers are only
  tested for truth by the source, never computed with.
\<close>

datatype json = JNull | JBool bool | JNum rat | JStr string | JArr "json list" | JObj "(string \<times> json) list"

type_synonym jsValue = "json option"

datatype jsError = TypeError

text \<open>
  \<open>v.name\<close> for a value other than \<open>null\<close>, for the property names the source reads
  (\<open>resources\<close>, \<open>timeSlots\<close>, \<open>status\<close>, \<open>startTime\<close>, \<open>endTime\<close>, \<open>id\<close>): only an object
  can have them, and the last binding of a repeated key is the one the parser keeps.
\<close>

definition propOf :: "json \<Rightarrow> string \<Rightarrow> jsValue" where
  "propOf v name = (case v of JObj kvs \<Rightarrow> map_of (rev kvs) name | _ \<Rightarrow> None)"

definition getProp :: "json \<Rightarrow> string \<Rightarrow> jsError + jsValue" where
  "getProp v name = (if v = JNull then Inl TypeError else Inr (propOf v name))"

definition truthy :: "jsValue \<Rightarrow> bool" where
  "truthy v = (case v of
       None \<Rightarrow> False
     | Some JNull \<Rightarrow> False
     | Some (JBool b) \<Rightarrow> b
     | Some (JNum n) \<Rightarrow> n \<noteq> 0
     | Some (JStr s) \<Rightarrow> s \<noteq> []
     | Some (JArr _) \<Rightarrow> True
     | Some (JObj _) \<Rightarrow> True)"

text \<open>\<open>v || []\<close>.\<close>

definition orEmptyArray :: "jsValue \<Rightarrow> json" where
  "orEmptyArray v = (if truthy v then the v else JArr [])"

text \<open>
  The elements a \<open>for ... of\<close> loop visits: those of an array, the characters of a
  string; any other value is not iterable.
\<close>

definition iterate :: "json \<Rightarrow> jsError + json list" where
  "iterate v = (case v of
       JArr xs \<Rightarrow> Inr xs
     | JStr s \<Rightarrow> Inr (map (\<lambda>c. JStr [c]) s)
     | _ \<Rightarrow> Inl TypeError)"

section \<open>Availability reduction (lib/hooks.ts, useAvailability)\<close>

definition isDigit :: "char \<Rightarrow> bool" where
  "isDigit c = (48 \<le> (of_char c :: nat) \<and> (of_char c :: nat) \<le> 57)"

definition digitVal :: "char \<Rightarrow> int" where
  "digitVal c = int (of_char c) - 48"

text \<open>
  \<open>t.match(/(\d{2}):\d{2}/)\<close> followed by \<open>parseInt(m[1], 10)\<close>: the leftmost place where
  two digits, a colon and two digits stand, and the number the first two digits write.
\<close>

fun matchHour :: "string \<Rightarrow> int option" where
  "matchHour (a # b # c # d # e # rest) =
     (if isDigit a \<and> isDigit b \<and> c = CHR '':'' \<and> isDigit d \<and> isDigit e
      then Some (10 * digitVal a + digitVal b)
      else matchHour (b # c # d # e # rest))"
| "matchHour _ = None"

text \<open>
  \<open>parseHour\<close>.  The argument is whatever the slot holds under \<open>startTime\<close> or \<open>endTime\<close>;
  \<open>t.match\<close> exists only on a string, so any other value raises.  The result \<open>None\<close> is
  \<open>NaN\<close>.
\<close>

definition parseHour :: "(string \<Rightarrow> timeValue) \<Rightarrow> jsValue \<Rightarrow> jsError + int option" where
  "parseHour dateParse t = (case t of
       Some (JStr s) \<Rightarrow>
         (case matchHour s of
            Some h \<Rightarrow> Inr (Some h)
          | None \<Rightarrow>
              (case dateParse s of
                 Some ms \<Rightarrow> Inr (Some (getUTCHours ms))
               | None \<Rightarrow> Inr None))
     | _ \<Rightarrow> Inl TypeError)"

text \<open>
  The map from \<open>String(h)\<close> to the set of resource ids.  An id is whatever the resource
  holds under \<open>id\<close>; the set compares ids as values, which is the host's comparison for
  strings, numbers, booleans, \<open>null\<close> and \<open>undefined\<close>.
\<close>

type_synonym hourMap = "string \<Rightarrow> jsValue set option"

definition hourSet :: "hourMap \<Rightarrow> int \<Rightarrow> jsValue set" where
  "hourSet m h = (case m (showInt h) of None \<Rightarrow> {} | Some s \<Rightarrow> s)"

text \<open>\<open>for (let h = startHour; h < endHour; h++)\<close>.\<close>

function addHours :: "jsValue \<Rightarrow> int \<Rightarrow> int \<Rightarrow> hourMap \<Rightarrow> hourMap" where
  "addHours rid h endHour m =
     (if h < endHour
      then addHours rid (h + 1) endHour
             (m(showInt h \<mapsto> insert rid (case m (showInt h) of None \<Rightarrow> {} | Some s \<Rightarrow> s)))
      else m)"
  by pat_completeness auto
termination
  by (relation "measure (\<lambda>(rid, h, endHour, m). nat (endHour - h))") auto

declare addHours.simps [simp del]

text \<open>The body of the inner loop, for one time slot \<open>ts\<close> of the resource with id \<open>rid\<close>.\<close>

definition addSlot :: "(string \<Rightarrow> timeValue) \<Rightarrow> jsValue \<Rightarrow> json \<Rightarrow> hourMap \<Rightarrow> jsError + hourMap" where
  "addSlot dateParse rid ts m =
     (case getProp ts ''status'' of
        Inl e \<Rightarrow> Inl e
      | Inr st \<Rightarrow>
          if st \<noteq> Some (JStr ''available'') then Inr m
          else (case parseHour dateParse (propOf ts ''startTime'') of
                  Inl e \<Rightarrow> Inl e
                | Inr startHour \<Rightarrow>
                    (case parseHour dateParse (propOf ts ''endTime'') of
                       Inl e \<Rightarrow> Inl e
                     | Inr endHour \<Rightarrow>
                         (case (startHour, endHour) of
                            (Some sh, Some eh) \<Rightarrow> Inr (addHours rid sh eh m)
                          | _ \<Rightarrow> Inr m))))"

fun addSlots :: "(string \<Rightarrow> timeValue) \<Rightarrow> jsValue \<Rightarrow> json list \<Rightarrow> hourMap \<Rightarrow> jsError + hourMap" where
  "addSlots dateParse rid [] m = Inr m"
| "addSlots dateParse rid (ts # tss) m =
     (case addSlot dateParse rid ts m of
        Inl e \<Rightarrow> Inl e
      | Inr m' \<Rightarrow> addSlots dateParse rid tss m')"

text \<open>The body of the outer loop, for one resource \<open>res\<close>.\<close>

definition addResource :: "(string \<Rightarrow> timeValue) \<Rightarrow> json \<Rightarrow> hourMap \<Rightarrow> jsError + hourMap" where
  "addResource dateParse res m =
     (case getProp res ''timeSlots'' of
        Inl e \<Rightarrow> Inl e
      | Inr v \<Rightarrow>
          (case iterate (orEmptyArray v) of
             Inl e \<Rightarrow> Inl e
           | Inr tss \<Rightarrow> addSlots dateParse (propOf res ''id'') tss m))"

fun addResources :: "(string \<Rightarrow> timeValue) \<Rightarrow> json list \<Rightarrow> hourMap \<Rightarrow> jsError + hourMap" where
  "addResources dateParse [] m = Inr m"
| "addResources dateParse (res # rs) m =
     (case addResource dateParse res m of
        Inl e \<Rightarrow> Inl e
      | Inr m' \<Rightarrow> addResources dateParse rs m')"

text \<open>
  The fetcher of \<open>useAvailability\<close> once the response \<open>apiResult\<close> has arrived: the map
  it returns, or the error that rejects it.
\<close>

definition useAvailability :: "(string \<Rightarrow> timeValue) \<Rightarrow> json \<Rightarrow> jsError + hourMap" where
  "useAvailability dateParse apiResult =
     (case getProp apiResult ''resources'' of
        Inl e \<Rightarrow> Inl e
      | Inr v \<Rightarrow>
          (case iterate (orEmptyArray v) of
             Inl e \<Rightarrow> Inl e
           | Inr rs \<Rightarrow> addResources dateParse rs Map.empty))"

text \<open>The resources and the time slots the loops visit (none where the loop would raise).\<close>

definition elementsOf :: "jsValue \<Rightarrow> json list" where
  "elementsOf v = (case iterate (orEmptyArray v) of Inl _ \<Rightarrow> [] | Inr xs \<Rightarrow> xs)"

text \<open>
  The shape the reduction relies on: no \<open>null\<close> where a property is read, \<open>resources\<close> and
  \<open>timeSlots\<close> absent (or otherwise false) or iterable, and string boundaries on every
  slot reported available.
\<close>

definition iterableOrAbsent :: "jsValue \<Rightarrow> bool" where
  "iterableOrAbsent v = (case iterate (orEmptyArray v) of Inl _ \<Rightarrow> False | Inr _ \<Rightarrow> True)"

definition isString :: "jsValue \<Rightarrow> bool" where
  "isString v = (case v of Some (JStr _) \<Rightarrow> True | _ \<Rightarrow> False)"

definition slotShaped :: "json \<Rightarrow> bool" where
  "slotShaped ts =
     (ts \<noteq> JNull \<and>
      (propOf ts ''status'' = Some (JStr ''available'') \<longrightarrow>
         isString (propOf ts ''startTime'') \<and> isString (propOf ts ''endTime'')))"

definition resourceShaped :: "json \<Rightarrow> bool" where
  "resourceShaped res =
     (res \<noteq> JNull \<and> iterableOrAbsent (propOf res ''timeSlots'') \<and>
      list_all slotShaped (elementsOf (propOf res ''timeSlots'')))"

definition responseShaped :: "json \<Rightarrow> bool" where
  "responseShaped apiResult =
     (apiResult \<noteq> JNull \<and> iterableOrAbsent (propOf apiResult ''resources'') \<and>
      list_all resourceShaped (elementsOf (propOf apiResult ''resources'')))"

text \<open>
  Whether a time slot is reported available and its extracted hours cover \<open>h\<close>:
  start hour \<open>\<le> h <\<close> end hour.
\<close>

definition slotCovers :: "(string \<Rightarrow> timeValue) \<Rightarrow> json \<Rightarrow> int \<Rightarrow> bool" where
  "slotCovers dateParse ts h =
     (propOf ts ''status'' = Some (JStr ''available'') \<and>
      (case (parseHour dateParse (propOf ts ''startTime''), parseHour dateParse (propOf ts ''endTime'')) of
         (Inr (Some sh), Inr (Some eh)) \<Rightarrow> sh \<le> h \<and> h < eh
       | _ \<Rightarrow> False))"

text \<open>Reading a decimal numeral back.\<close>

definition readNat :: "string \<Rightarrow> nat" where
  "readNat s = foldl (\<lambda>a c. 10 * a + (of_char c - 48)) 0 s"

section \<open>Session store and authenticated requests (lib/api.ts)\<close>

text \<open>
  The module keeps the two tokens in variables and, in a browser, in \<open>localStorage\<close>.
  \<open>window\<close> is \<open>None\<close> where \<open>typeof window\<close> is \<open>undefined\<close> (on the server).  \<open>sent\<close> is
  the list of requests handed to \<open>fetch\<close> so far, oldest first.
\<close>

record Request =
  url :: string
  httpMethod :: "string option"
  headers :: "(string \<times> string) list"
  body :: "string option"

record RequestInit =
  initMethod :: "string option"
  initHeaders :: "(string \<times> string) list"
  initBody :: "string option"

record Response =
  statusCode :: nat
  statusText :: string
  bodyText :: string

record Browser =
  localStorage :: "string \<Rightarrow> string option"
  href :: string

record World =
  accessToken :: "string option"
  refreshToken :: "string option"
  window :: "Browser option"
  envApiUrl :: "string option"
  sent :: "Request list"

text \<open>
  What the host and the remote side contribute: \<open>jsonParse\<close> is \<open>JSON.parse\<close> (\<open>None\<close>
  where it throws), \<open>readTokens\<close> is \<open>response.json()\<close> of the renewal response read at
  its declared type, giving the access and the refresh token (\<open>None\<close> where it rejects),
  and \<open>jsonStringify\<close> is \<open>JSON.stringify\<close>.
\<close>

record Host =
  jsonParse :: "string \<Rightarrow> json option"
  readTokens :: "string \<Rightarrow> (string \<times> string) option"
  jsonStringify :: "json \<Rightarrow> string"

text \<open>The remote side: the reply to a request given the requests sent before it; \<open>None\<close> where \<open>fetch\<close> rejects.\<close>

type_synonym network = "Request list \<Rightarrow> Request \<Rightarrow> Response option"

text \<open>What a call can throw: a value (an error payload), or the rejection of \<open>fetch\<close>.\<close>

datatype thrown = Thrown json | FetchFailed

definition truthyString :: "string option \<Rightarrow> bool" where
  "truthyString v = (case v of None \<Rightarrow> False | Some s \<Rightarrow> s \<noteq> [])"

definition endsWith :: "string \<Rightarrow> string \<Rightarrow> bool" where
  "endsWith s suf = (length suf \<le> length s \<and> drop (length s - length suf) s = suf)"

definition getBaseUrl :: "World \<Rightarrow> string" where
  "getBaseUrl w =
     (case window w of
        Some _ \<Rightarrow> ''/api''
      | None \<Rightarrow>
          (let raw = (if truthyString (envApiUrl w) then the (envApiUrl w) else ''https://localhost:7110'')
           in if endsWith raw ''/api'' then raw else raw @ ''/api''))"

definition storeItem :: "string \<Rightarrow> string option \<Rightarrow> Browser \<Rightarrow> Browser" where
  "storeItem k v b = b\<lparr> localStorage := (localStorage b)(k := v) \<rparr>"

definition setTokens :: "string \<Rightarrow> string \<Rightarrow> World \<Rightarrow> World" where
  "setTokens access refresh w =
     w\<lparr> accessToken := Some access, refreshToken := Some refresh,
        window := map_option (storeItem ''refreshToken'' (Some refresh) \<circ> storeItem ''accessToken'' (Some access))
                    (window w) \<rparr>"

definition getAccessToken :: "World \<Rightarrow> string option \<times> World" where
  "getAccessToken w =
     (if truthyString (accessToken w) then (accessToken w, w)
      else (case window w of
              Some b \<Rightarrow> (localStorage b ''accessToken'', w\<lparr> accessToken := localStorage b ''accessToken'' \<rparr>)
            | None \<Rightarrow> (accessToken w, w)))"

definition getRefreshToken :: "World \<Rightarrow> string option \<times> World" where
  "getRefreshToken w =
     (if truthyString (refreshToken w) then (refreshToken w, w)
      else (case window w of
              Some b \<Rightarrow> (localStorage b ''refreshToken'', w\<lparr> refreshToken := localStorage b ''refreshToken'' \<rparr>)
            | None \<Rightarrow> (refreshToken w, w)))"

definition clearTokens :: "World \<Rightarrow> World" where
  "clearTokens w =
     w\<lparr> accessToken := None, refreshToken := None,
        window := map_option (storeItem ''user'' None \<circ> storeItem ''refreshToken'' None \<circ>
                              storeItem ''accessToken'' None) (window w) \<rparr>"

definition fetch :: "network \<Rightarrow> Request \<Rightarrow> World \<Rightarrow> Response option \<times> World" where
  "fetch net req w = (net (sent w) req, w\<lparr> sent := sent w @ [req] \<rparr>)"

definition ok :: "Response \<Rightarrow> bool" where
  "ok r = (200 \<le> statusCode r \<and> statusCode r \<le> 299)"

definition syntheticError :: "Response \<Rightarrow> json" where
  "syntheticError r =
     JObj [(''title'', JStr ''Error''), (''status'', JNum (of_nat (statusCode r))),
           (''detail'', JStr (if statusText r \<noteq> [] then statusText r else ''An unexpected error occurred''))]"

definition handleResponse :: "Host \<Rightarrow> Response \<Rightarrow> thrown + json" where
  "handleResponse host r =
     (if \<not> ok r
      then Inl (Thrown (case jsonParse host (bodyText r) of Some v \<Rightarrow> v | None \<Rightarrow> syntheticError r))
      else if bodyText r = [] then Inr (JObj [])
      else (case jsonParse host (bodyText r) of Some v \<Rightarrow> Inr v | None \<Rightarrow> Inr (JObj [])))"

text \<open>The request \<open>refreshAccessToken\<close> sends for refresh token \<open>rt\<close>.\<close>

definition renewalRequest :: "Host \<Rightarrow> World \<Rightarrow> string \<Rightarrow> Request" where
  "renewalRequest host w rt =
     \<lparr> url = getBaseUrl w @ ''/auth/refresh'', httpMethod = Some ''POST'',
       headers = [(''Content-Type'', ''application/json'')], body = Some (jsonStringify host (JObj [(''refreshToken'', JStr rt)])) \<rparr>"

definition refreshAccessToken :: "Host \<Rightarrow> network \<Rightarrow> World \<Rightarrow> bool \<times> World" where
  "refreshAccessToken host net w =
     (let (rt, w1) = getRefreshToken w in
      if \<not> truthyString rt then (False, w1)
      else (let (res, w2) = fetch net (renewalRequest host w1 (the rt)) w1 in
            case res of
              None \<Rightarrow> (False, clearTokens w2)
            | Some response \<Rightarrow>
                if \<not> ok response then (False, clearTokens w2)
                else (case readTokens host (bodyText response) of
                        None \<Rightarrow> (False, clearTokens w2)
                      | Some (access, refresh) \<Rightarrow> (True, setTokens access refresh w2))))"

text \<open>Assignment to a property of the headers object: in place where the key exists, at the end otherwise.\<close>

fun setHeader :: "string \<Rightarrow> string \<Rightarrow> (string \<times> string) list \<Rightarrow> (string \<times> string) list" where
  "setHeader k v [] = [(k, v)]"
| "setHeader k v (p # ps) = (if fst p = k then (k, v) # ps else p # setHeader k v ps)"

text \<open>\<open>{ "Content-Type": "application/json", ...options.headers }\<close>.\<close>

definition baseHeaders :: "RequestInit \<Rightarrow> (string \<times> string) list" where
  "baseHeaders options =
     foldl (\<lambda>hs (k, v). setHeader k v hs) [(''Content-Type'', ''application/json'')] (initHeaders options)"

definition mkRequest :: "string \<Rightarrow> RequestInit \<Rightarrow> (string \<times> string) list \<Rightarrow> Request" where
  "mkRequest u options hs = \<lparr> url = u, httpMethod = initMethod options, headers = hs, body = initBody options \<rparr>"

definition sessionExpired :: json where
  "sessionExpired =
     JObj [(''title'', JStr ''Session Expired''), (''status'', JNum 401), (''detail'', JStr ''Please log in again.'')]"

text \<open>The headers of the first attempt, for the token \<open>getAccessToken\<close> returned.\<close>

definition firstHeaders :: "RequestInit \<Rightarrow> string option \<Rightarrow> (string \<times> string) list" where
  "firstHeaders options token =
     (if truthyString token then setHeader ''Authorization'' (''Bearer '' @ the token) (baseHeaders options)
      else baseHeaders options)"

text \<open>\<open>`Bearer ${getAccessToken()}`\<close>: \<open>null\<close> is rendered as the word.\<close>

definition bearer :: "string option \<Rightarrow> string" where
  "bearer token = ''Bearer '' @ (case token of None \<Rightarrow> ''null'' | Some t \<Rightarrow> t)"

definition redirectToLogin :: "World \<Rightarrow> World" where
  "redirectToLogin w = w\<lparr> window := map_option (\<lambda>b. b\<lparr> href := ''/login'' \<rparr>) (window w) \<rparr>"

definition authFetch :: "Host \<Rightarrow> network \<Rightarrow> string \<Rightarrow> RequestInit \<Rightarrow> World \<Rightarrow> (thrown + json) \<times> World" where
  "authFetch host net u options w =
     (let (token, w1) = getAccessToken w;
          hs = firstHeaders options token;
          (res, w2) = fetch net (mkRequest u options hs) w1
      in case res of
           None \<Rightarrow> (Inl FetchFailed, w2)
         | Some response \<Rightarrow>
             if statusCode response = 401
             then (let (refreshed, w3) = refreshAccessToken host net w2 in
                   if refreshed
                   then (let (token2, w4) = getAccessToken w3;
                             hs2 = setHeader ''Authorization'' (bearer token2) hs;
                             (res2, w5) = fetch net (mkRequest u options hs2) w4
                         in case res2 of
                              None \<Rightarrow> (Inl FetchFailed, w5)
                            | Some response2 \<Rightarrow> (handleResponse host response2, w5))
                   else (Inl (Thrown sessionExpired), redirectToLogin (clearTokens w3)))
             else (handleResponse host response, w2))"

text \<open>
  The three requests of a renewed call, in terms of the world before the call: the first
  attempt, with the token \<open>getAccessToken\<close> returns there; the retry, which differs from
  it in the \<open>Authorization\<close> header only; and the stored refresh token.
\<close>

definition firstRequest :: "string \<Rightarrow> RequestInit \<Rightarrow> World \<Rightarrow> Request" where
  "firstRequest u options w = mkRequest u options (firstHeaders options (fst (getAccessToken w)))"

definition retryRequest :: "string \<Rightarrow> RequestInit \<Rightarrow> World \<Rightarrow> string \<Rightarrow> Request" where
  "retryRequest u options w access =
     mkRequest u options
       (setHeader ''Authorization'' (''Bearer '' @ access) (firstHeaders options (fst (getAccessToken w))))"

definition storedRefreshToken :: "World \<Rightarrow> string option" where
  "storedRefreshToken w = fst (getRefreshToken w)"

text \<open>The world once the first attempt has been sent.\<close>

definition afterFirst :: "string \<Rightarrow> RequestInit \<Rightarrow> World \<Rightarrow> World" where
  "afterFirst u options w = (snd (getAccessToken w))\<lparr> sent := sent w @ [firstRequest u options w] \<rparr>"

text \<open>
  Renewal fails: no refresh token is stored, or the renewal request is rejected, answered
  with a status outside 200-299, or answered with a body that is not JSON.
\<close>

definition renewalFails :: "Host \<Rightarrow> network \<Rightarrow> string \<Rightarrow> RequestInit \<Rightarrow> World \<Rightarrow> bool" where
  "renewalFails host net u options w =
     (\<not> truthyString (storedRefreshToken w) \<or>
      (case net (sent w @ [firstRequest u options w]) (renewalRequest host w (the (storedRefreshToken w))) of
         None \<Rightarrow> True
       | Some r2 \<Rightarrow> \<not> ok r2 \<or> readTokens host (bodyText r2) = None))"

section \<open>Cache keys and invalidation (lib/hooks.ts)\<close>

text \<open>
  The keys the hooks use: arrays of strings and numbers (\<open>["availability", type,
  dateStr]\<close>, \<open>["user-bookings", userId, pageNumber, pageSize]\<close>, \<open>["resources", type,
  pageSize]\<close>, \<open>["available-resources", type, startUtc, endUtc]\<close>) and the string
  \<open>"resources-refresh-signal"\<close>.  An entry holds the last value and whether a
  revalidation has been requested for it.  \<open>mutateWhere f\<close> is the cache library's
  \<open>mutate(f, undefined, { revalidate: true })\<close>, which requests revalidation of every
  cached key that \<open>f\<close> accepts; \<open>mutateKey k\<close> is the bound \<open>mutate()\<close> of the hook with key
  \<open>k\<close>; \<open>setData k v\<close> is \<open>mutate(k, v, false)\<close>, which stores \<open>v\<close> and requests nothing.
\<close>

datatype keyPart = KString string | KNumber int

datatype cacheKey = ArrayKey "keyPart list" | StringKey string

record 'v cacheEntry =
  entryData :: "'v option"
  revalidate :: bool

type_synonym 'v cache = "(cacheKey \<times> 'v cacheEntry) list"

definition mutateWhere :: "(cacheKey \<Rightarrow> bool) \<Rightarrow> 'v cache \<Rightarrow> 'v cache" where
  "mutateWhere f c = map (\<lambda>(k, e). if f k then (k, e\<lparr> revalidate := True \<rparr>) else (k, e)) c"


fun setData :: "cacheKey \<Rightarrow> 'v \<Rightarrow> 'v cache \<Rightarrow> 'v cache" where
  "setData k v [] = [(k, \<lparr> entryData = Some v, revalidate = False \<rparr>)]"
| "setData k v (p # ps) =
     (if fst p = k then (k, (snd p)\<lparr> entryData := Some v \<rparr>) # ps else p # setData k v ps)"

text \<open>The filter of \<open>invalidateBookings\<close>.\<close>

definition bookingsFilter :: "cacheKey \<Rightarrow> bool" where
  "bookingsFilter key = (case key of
       ArrayKey (k0 # _) \<Rightarrow> k0 = KString ''user-bookings'' \<or> k0 = KString ''available-resources''
     | _ \<Rightarrow> False)"

definition invalidateBookings :: "'v cache \<Rightarrow> 'v cache" where
  "invalidateBookings c = mutateWhere bookingsFilter c"

text \<open>The filter of \<open>invalidateResources(type)\<close>; the type may be left out.\<close>

definition resourcesFilter :: "string option \<Rightarrow> cacheKey \<Rightarrow> bool" where
  "resourcesFilter type key = (case key of
       ArrayKey (k0 # rest) \<Rightarrow>
         (if k0 \<noteq> KString ''resources'' then False
          else if \<not> truthyString type then True
          else (case rest of k1 # _ \<Rightarrow> k1 = KString (the type) | [] \<Rightarrow> False))
     | _ \<Rightarrow> False)"

definition signalKey :: cacheKey where
  "signalKey = StringKey ''resources-refresh-signal''"

text \<open>\<open>invalidateResources(type)\<close>; \<open>now\<close> is the value of \<open>Date.now()\<close>.\<close>

definition invalidateResources :: "string option \<Rightarrow> 'v \<Rightarrow> 'v cache \<Rightarrow> 'v cache" where
  "invalidateResources type now c = setData signalKey now (mutateWhere (resourcesFilter type) c)"

section \<open>Booking flow (booking dialog)\<close>

record Resource =
  resourceIdent :: string
  resourceName :: string
  resourceType :: string

definition pad2 :: "string \<Rightarrow> string" where
  "pad2 s = replicate (2 - length s) CHR ''0'' @ s"

definition toUtcIso :: "timeZone \<Rightarrow> int \<Rightarrow> int \<Rightarrow> string" where
  "toUtcIso tz date hour =
     showInt (getFullYear tz date) @ ''-'' @ pad2 (showInt (getMonth tz date + 1)) @ ''-'' @
     pad2 (showInt (getDate tz date)) @ ''T'' @ pad2 (showInt hour) @ '':00:00Z''"

definition createBooking ::
  "Host \<Rightarrow> network \<Rightarrow> string \<Rightarrow> string \<Rightarrow> string \<Rightarrow> string \<Rightarrow> World \<Rightarrow> (thrown + json) \<times> World" where
  "createBooking host net rid uid startIso endIso w =
     authFetch host net (getBaseUrl w @ ''/bookings'')
       \<lparr> initMethod = Some ''POST'', initHeaders = [],
         initBody = Some (jsonStringify host
           (JObj [(''resourceId'', JStr rid), (''userId'', JStr uid),
                  (''startUtc'', JStr startIso), (''endUtc'', JStr endIso)])) \<rparr> w"

text \<open>
  \<open>handleConfirm\<close> of the dialog, on the session and the cache (the dialog's own
  \<open>error\<close> and \<open>isSubmitting\<close> states and the toast are left out).  Without a resource it
  returns at once; after a failed request it invalidates nothing.
\<close>

definition handleConfirm ::
  "Host \<Rightarrow> network \<Rightarrow> timeZone \<Rightarrow> 'v \<Rightarrow> Resource option \<Rightarrow> int \<Rightarrow> int \<Rightarrow> string \<Rightarrow>
   World \<times> 'v cache \<Rightarrow> World \<times> 'v cache" where
  "handleConfirm host net tz now resource date hour uid st =
     (case resource of
        None \<Rightarrow> st
      | Some res \<Rightarrow>
          (let (result, w') = createBooking host net (resourceIdent res) uid
                                (toUtcIso tz date hour) (toUtcIso tz date (hour + 1)) (fst st)
           in case result of
                Inr _ \<Rightarrow> (w', invalidateResources (Some (resourceType res)) now (invalidateBookings (snd st)))
              | Inl _ \<Rightarrow> (w', snd st)))"



section \<open>Ledger-count trigger (dashboard page)\<close>

text \<open>
  One run of the effect: \<open>prev\<close> is \<open>prevBookingsCountRef.current\<close>, \<open>count\<close> the number
  of bookings read (\<open>None\<close> for \<open>null\<close>: no data yet).  The result says whether
  \<open>mutateAvailability\<close> was called, and gives the new content of the ref.
\<close>

definition countEffect :: "nat option \<Rightarrow> nat option \<Rightarrow> bool \<times> nat option" where
  "countEffect prev count = (prev \<noteq> None \<and> count \<noteq> prev, count)"

text \<open>The runs of the effect over successive reads, starting from the ref's content.\<close>

fun countEffects :: "nat option \<Rightarrow> nat option list \<Rightarrow> bool list" where
  "countEffects prev [] = []"
| "countEffects prev (count # counts) =
     fst (countEffect prev count) # countEffects (snd (countEffect prev count)) counts"


section \<open>Concrete inputs\<close>

text \<open>
  New York around the end of daylight saving time on 2 November 2025: four hours behind
  UTC before 06:00 UTC (02:00 local), five hours after.
\<close>

definition newYorkAutumn2025 :: timeZone where
  "newYorkAutumn2025 =
     \<lparr> offsetAtUtc = (\<lambda>t. if t < 1762063200000 then - 14400000 else - 18000000),
       offsetAtLocal = (\<lambda>t. if t < 1762048800000 then - 14400000 else - 18000000) \<rparr>"

text \<open>A date parser that knows three ISO strings of 3 November 2025.\<close>

definition isoTable :: "string \<Rightarrow> timeValue" where
  "isoTable s = (if s = ''2025-11-03T10:00:00Z'' then Some 1762164000000
                 else if s = ''2025-11-03T11:00:00Z'' then Some 1762167600000
                 else if s = ''2025-11-03'' then Some 1762128000000 else None)"

definition demoBooking :: Booking where
  "demoBooking = \<lparr> idB = ''b1'', userId = ''u1'', resourceId = ''r1'',
     startUtc = ''2025-11-03T10:00:00Z'', endUtc = ''2025-11-03T11:00:00Z'',
     bookingStatus = ''Active'' \<rparr>"

text \<open>
  An availability response: \<open>r1\<close> free from 10 to 12 and booked at 12, \<open>r2\<close> free from
  10 to 11 (boundaries as timestamps) with one slot whose boundaries say nothing, \<open>r3\<close>
  without time slots.
\<close>

definition demoResponse :: json where
  "demoResponse = JObj [(''resources'', JArr [
      JObj [(''id'', JStr ''r1''), (''timeSlots'', JArr [
        JObj [(''startTime'', JStr ''10:00''), (''endTime'', JStr ''12:00''), (''status'', JStr ''available'')],
        JObj [(''startTime'', JStr ''12:00''), (''endTime'', JStr ''13:00''), (''status'', JStr ''booked'')]])],
      JObj [(''id'', JStr ''r2''), (''timeSlots'', JArr [
        JObj [(''startTime'', JStr ''2025-11-03T10:00:00Z''), (''endTime'', JStr ''2025-11-03T11:00:00Z''),
              (''status'', JStr ''available'')],
        JObj [(''startTime'', JStr ''soon''), (''endTime'', JStr ''later''), (''status'', JStr ''available'')]])],
      JObj [(''id'', JStr ''r3'')]])]"

text \<open>A response whose only slot is reported available and has no \<open>startTime\<close>.\<close>

definition missingStartResponse :: json where
  "missingStartResponse = JObj [(''resources'', JArr [
      JObj [(''id'', JStr ''r1''), (''timeSlots'', JArr [
        JObj [(''endTime'', JStr ''12:00''), (''status'', JStr ''available'')]])]])]"

text \<open>
  A host, two remote sides and two browser sessions.  \<open>demoNet\<close> renews \<open>R1\<close> into the
  tokens \<open>A2\<close>, \<open>R2\<close> and accepts only \<open>A2\<close>; \<open>refusingNet\<close> answers 401 to everything.
  \<open>demoWorld\<close> holds the outdated token \<open>A1\<close> and the refresh token \<open>R1\<close>;
  \<open>signedOutWorld\<close> holds no refresh token.
\<close>

definition demoHost :: Host where
  "demoHost =
     \<lparr> jsonParse = (\<lambda>s. if s = ''{}'' then Some (JObj []) else None),
       readTokens = (\<lambda>s. if s = ''{accessToken: A2, refreshToken: R2}'' then Some (''A2'', ''R2'') else None),
       jsonStringify = (\<lambda>v. case v of
           JObj [(k, JStr x)] \<Rightarrow> ''{'' @ k @ '': '' @ x @ ''}''
         | _ \<Rightarrow> ''{resourceId: r1}'') \<rparr>"

definition unauthorized :: Response where
  "unauthorized = \<lparr> statusCode = 401, statusText = ''Unauthorized'', bodyText = [] \<rparr>"

definition renewed :: Response where
  "renewed = \<lparr> statusCode = 200, statusText = ''OK'', bodyText = ''{accessToken: A2, refreshToken: R2}'' \<rparr>"

definition demoNet :: network where
  "demoNet hist req =
     (if url req = ''/api/auth/refresh'' then Some renewed
      else if (''Authorization'', ''Bearer A2'') \<in> set (headers req)
      then Some \<lparr> statusCode = 200, statusText = ''OK'', bodyText = ''{}'' \<rparr>
      else Some unauthorized)"

definition refusingNet :: network where
  "refusingNet hist req = Some unauthorized"

definition demoBrowser :: Browser where
  "demoBrowser =
     \<lparr> localStorage = [''accessToken'' \<mapsto> ''A1'', ''refreshToken'' \<mapsto> ''R1'', ''user'' \<mapsto> ''{name: Ann}''],
       href = ''/dashboard'' \<rparr>"

definition demoWorld :: World where
  "demoWorld = \<lparr> accessToken = Some ''A1'', refreshToken = Some ''R1'', window = Some demoBrowser,
                 envApiUrl = None, sent = [] \<rparr>"

definition signedOutWorld :: World where
  "signedOutWorld =
     \<lparr> accessToken = Some ''A1'', refreshToken = None,
       window = Some \<lparr> localStorage = [''accessToken'' \<mapsto> ''A1'', ''user'' \<mapsto> ''{name: Ann}''],
                       href = ''/dashboard'' \<rparr>,
       envApiUrl = None, sent = [] \<rparr>"

definition demoInit :: RequestInit where
  "demoInit = \<lparr> initMethod = Some ''POST'', initHeaders = [], initBody = Some ''{resourceId: r1}'' \<rparr>"





section \<open>Slot status: priority of the past and of ownership\<close>




text \<open>
  C1.  When the slot's end instant (the date's calendar fields with hour + 1, read as UTC)
  is at or before the current time, the status is \<open>past\<close>, whatever the bookings, the
  availability set and the bookability flag are.
\<close>

theorem getSlotStatus_past_wins:
  "js_le (slotEnd tz selectedDate hour) (Some now) \<Longrightarrow>
   status (getSlotStatus tz dateParse now rid hour selectedDate userBookings availableSet isBookable) = past"
  by (simp add: getSlotStatus_def)

text \<open>
  At 12:00 UTC on 3 November 2025 the slot 10:00-11:00 of that day is past, although the
  user holds an active booking on it, the availability set lists it and the date is bookable.
\<close>

theorem getSlotStatus_past_wins_witness:
  "js_le (slotEnd (fixedZone 0) 1762128000000 10) (Some 1762171200000) \<and>
   status (getSlotStatus (fixedZone 0) isoTable 1762171200000 ''r1'' 10 1762128000000
             [demoBooking] {''r1_10''} True) = past"
proof -
  have h: "js_le (slotEnd (fixedZone 0) 1762128000000 10) (Some 1762171200000)"
    by code_simp
  show ?thesis
    using h getSlotStatus_past_wins [OF h, of isoTable "''r1''" "[demoBooking]" "{''r1_10''}" True]
    by simp
qed



section \<open>Booking horizon\<close>

text \<open>
  In a zone with a constant offset the two local midnights differ by a whole number of
  days, and the date is bookable exactly when its calendar day is 0 to 3 days after
  today's.
\<close>

lemma isBookableDate_fixedZone:
  assumes "\<bar>calendarDay (fixedZone off) now * msPerDay - off\<bar> \<le> 8640000000000000"
    and "\<bar>calendarDay (fixedZone off) date * msPerDay - off\<bar> \<le> 8640000000000000"
  shows "isBookableDate (fixedZone off) now date \<longleftrightarrow>
           0 \<le> calendarDay (fixedZone off) date - calendarDay (fixedZone off) now \<and>
           calendarDay (fixedZone off) date - calendarDay (fixedZone off) now \<le> 3"
proof -
  let ?a = "calendarDay (fixedZone off) now" and ?b = "calendarDay (fixedZone off) date"
  have today: "newDateLocal (fixedZone off) (getFullYear (fixedZone off) now)
      (getMonth (fixedZone off) now) (getDate (fixedZone off) now) = Some (?a * msPerDay - off)"
    using assms(1) by (simp add: newDateLocal_def calendarDay_def timeClip_def fixedZone_def)
  have target: "newDateLocal (fixedZone off) (getFullYear (fixedZone off) date)
      (getMonth (fixedZone off) date) (getDate (fixedZone off) date) = Some (?b * msPerDay - off)"
    using assms(2) by (simp add: newDateLocal_def calendarDay_def timeClip_def fixedZone_def)
  define k where "k = ?b - ?a"
  have "(?b * msPerDay - off) - (?a * msPerDay - off) = k * msPerDay"
    by (simp add: k_def algebra_simps)
  then have "(of_int ((?b * msPerDay - off) - (?a * msPerDay - off)) :: rat) / of_int msPerDay
      = of_int k"
    by (simp add: msPerDay_def)
  then have "isBookableDate (fixedZone off) now date \<longleftrightarrow> 0 \<le> k \<and> k \<le> 3"
    unfolding isBookableDate_def today target by (simp add: Let_def)
  then show ?thesis
    by (simp add: k_def)
qed

text \<open>
  C3.  The claim fails on the code where a daylight-saving change lies between the two
  dates.  In New York on 31 October 2025, 12:00 local time, the date 3 November 2025 is
  three calendar days ahead, the local midnights are 73 hours apart, \<open>diff\<close> exceeds 3 and
  the date is not bookable.
\<close>

theorem isBookableDate_third_day_across_dst:
  "calendarDay newYorkAutumn2025 1762146000000 - calendarDay newYorkAutumn2025 1761926400000 = 3
   \<and> \<not> isBookableDate newYorkAutumn2025 1761926400000 1762146000000"
  by code_simp

section \<open>Availability reduction\<close>

subsection \<open>Decimal rendering is injective\<close>

lemma readNat_snoc: "readNat (s @ [c]) = 10 * readNat s + (of_char c - 48)"
  by (simp add: readNat_def)

lemma of_char_digitChar: "k < 10 \<Longrightarrow> (of_char (digitChar k) :: nat) = 48 + k"
  by (simp add: digitChar_def)

lemma readNat_showNat: "readNat (showNat n) = n"
proof (induction n rule: showNat.induct)
  case (1 n)
  show ?case
  proof (cases "n < 10")
    case True
    then show ?thesis by (simp add: showNat.simps[of n] readNat_def of_char_digitChar)
  next
    case False
    then have "readNat (showNat (n div 10)) = n div 10" using 1 by simp
    with False show ?thesis
      by (simp add: showNat.simps[of n] readNat_snoc of_char_digitChar)
  qed
qed

lemma showNat_inj: "showNat a = showNat b \<Longrightarrow> a = b"
  by (metis readNat_showNat)

lemma showNat_no_minus: "CHR ''-'' \<notin> set (showNat n)"
proof (induction n rule: showNat.induct)
  case (1 n)
  have d: "\<And>k. k < 10 \<Longrightarrow> digitChar k \<noteq> CHR ''-''"
  proof
    fix k :: nat assume "k < 10" and "digitChar k = CHR ''-''"
    then have "(of_char (digitChar k) :: nat) = of_char (CHR ''-'')" by simp
    with \<open>k < 10\<close> show False by (simp add: of_char_digitChar)
  qed
  show ?case
  proof (cases "n < 10")
    case True
    then show ?thesis using d[of n] by (simp add: showNat.simps[of n])
  next
    case False
    then show ?thesis using 1 d[of "n mod 10"] by (simp add: showNat.simps[of n])
  qed
qed

lemma showNat_nonempty: "showNat n \<noteq> []"
  by (simp add: showNat.simps[of n])

lemma showInt_inj: "showInt a = showInt b \<Longrightarrow> a = b"
proof -
  assume eq: "showInt a = showInt b"
  have hd_pos: "\<And>n. hd (showNat n) \<noteq> CHR ''-''"
    using showNat_no_minus showNat_nonempty by (metis hd_in_set)
  show ?thesis
  proof (cases "a < 0")
    case an: True
    show ?thesis
    proof (cases "b < 0")
      case True
      with an eq have "showNat (nat (- a)) = showNat (nat (- b))" by (simp add: showInt_def)
      then have "nat (- a) = nat (- b)" by (rule showNat_inj)
      with an True show ?thesis by simp
    next
      case False
      with an eq have "CHR ''-'' # showNat (nat (- a)) = showNat (nat b)" by (simp add: showInt_def)
      then have "hd (showNat (nat b)) = CHR ''-''" by (metis list.sel(1))
      with hd_pos show ?thesis by blast
    qed
  next
    case ap: False
    show ?thesis
    proof (cases "b < 0")
      case True
      with ap eq have "showNat (nat a) = CHR ''-'' # showNat (nat (- b))" by (simp add: showInt_def)
      then have "hd (showNat (nat a)) = CHR ''-''" by (metis list.sel(1))
      with hd_pos show ?thesis by blast
    next
      case False
      with ap eq have "showNat (nat a) = showNat (nat b)" by (simp add: showInt_def)
      then have "nat a = nat b" by (rule showNat_inj)
      with ap False show ?thesis by simp
    qed
  qed
qed

subsection \<open>What the loops add to the map\<close>

lemma hourSet_addHours:
  "hourSet (addHours rid s e m) h = hourSet m h \<union> (if s \<le> h \<and> h < e then {rid} else {})"
proof (induction rid s e m rule: addHours.induct)
  case (1 rid s e m)
  show ?case
  proof (cases "s < e")
    case False
    then show ?thesis by (auto simp: addHours.simps[of rid s e m])
  next
    case True
    let ?m' = "m(showInt s \<mapsto> insert rid (case m (showInt s) of None \<Rightarrow> {} | Some x \<Rightarrow> x))"
    have ih: "hourSet (addHours rid (s + 1) e ?m') h =
        hourSet ?m' h \<union> (if s + 1 \<le> h \<and> h < e then {rid} else {})"
      by (rule 1[OF True])
    have upd: "hourSet ?m' h = (if h = s then insert rid (hourSet m s) else hourSet m h)"
      using showInt_inj[of h s] by (auto simp: hourSet_def)
    from True ih upd show ?thesis
      by (auto simp: addHours.simps[of rid s e m])
  qed
qed

lemma hourSet_addSlot:
  assumes "addSlot dp rid ts m = Inr m'"
  shows "hourSet m' h = hourSet m h \<union> (if slotCovers dp ts h then {rid} else {})"
proof (cases "propOf ts ''status'' = Some (JStr ''available'')")
  case False
  with assms have "m' = m"
    by (simp add: addSlot_def getProp_def split: if_splits)
  with False show ?thesis by (simp add: slotCovers_def)
next
  case True
  from assms have nn: "ts \<noteq> JNull"
    by (auto simp: addSlot_def getProp_def split: if_splits)
  from assms True nn obtain sh eh where
    p1: "parseHour dp (propOf ts ''startTime'') = Inr sh" and
    p2: "parseHour dp (propOf ts ''endTime'') = Inr eh"
    by (simp add: addSlot_def getProp_def split: sum.splits)
  show ?thesis
  proof (cases sh)
    case None
    with assms True nn p1 p2 have "m' = m" by (simp add: addSlot_def getProp_def)
    with None p1 True show ?thesis by (simp add: slotCovers_def)
  next
    case (Some s)
    note sh = this
    show ?thesis
    proof (cases eh)
      case None
      with assms True nn p1 p2 sh have "m' = m" by (simp add: addSlot_def getProp_def)
      with None p1 p2 sh True show ?thesis by (simp add: slotCovers_def)
    next
      case (Some e)
      with assms True nn p1 p2 sh have "m' = addHours rid s e m" by (simp add: addSlot_def getProp_def)
      with Some p1 p2 sh True show ?thesis by (simp add: slotCovers_def hourSet_addHours)
    qed
  qed
qed

lemma hourSet_addSlots:
  "addSlots dp rid tss m = Inr m' \<Longrightarrow>
   hourSet m' h = hourSet m h \<union> (if \<exists>ts \<in> set tss. slotCovers dp ts h then {rid} else {})"
proof (induction tss arbitrary: m)
  case Nil
  then show ?case by simp
next
  case (Cons ts tss)
  then obtain m1 where s1: "addSlot dp rid ts m = Inr m1" and s2: "addSlots dp rid tss m1 = Inr m'"
    by (auto split: sum.splits)
  have a: "hourSet m1 h = hourSet m h \<union> (if slotCovers dp ts h then {rid} else {})"
    by (rule hourSet_addSlot[OF s1])
  have b: "hourSet m' h = hourSet m1 h \<union> (if \<exists>ts \<in> set tss. slotCovers dp ts h then {rid} else {})"
    by (rule Cons.IH[OF s2])
  show ?case unfolding b a by auto
qed

lemma hourSet_addResource:
  assumes "addResource dp res m = Inr m'"
  shows "hourSet m' h = hourSet m h \<union>
     (if \<exists>ts \<in> set (elementsOf (propOf res ''timeSlots'')). slotCovers dp ts h
      then {propOf res ''id''} else {})"
proof -
  from assms obtain tss where it: "iterate (orEmptyArray (propOf res ''timeSlots'')) = Inr tss"
    and run: "addSlots dp (propOf res ''id'') tss m = Inr m'"
    by (auto simp: addResource_def getProp_def split: if_splits sum.splits)
  from it have "elementsOf (propOf res ''timeSlots'') = tss" by (simp add: elementsOf_def)
  with hourSet_addSlots[OF run, of h] show ?thesis by simp
qed

lemma hourSet_addResources:
  "addResources dp rs m = Inr m' \<Longrightarrow>
   rid \<in> hourSet m' h \<longleftrightarrow>
     rid \<in> hourSet m h \<or>
     (\<exists>res \<in> set rs. propOf res ''id'' = rid \<and>
        (\<exists>ts \<in> set (elementsOf (propOf res ''timeSlots'')). slotCovers dp ts h))"
proof (induction rs arbitrary: m)
  case Nil
  then show ?case by simp
next
  case (Cons res rs)
  then obtain m1 where s1: "addResource dp res m = Inr m1" and s2: "addResources dp rs m1 = Inr m'"
    by (auto split: sum.splits)
  have a: "hourSet m1 h = hourSet m h \<union>
     (if \<exists>ts \<in> set (elementsOf (propOf res ''timeSlots'')). slotCovers dp ts h
      then {propOf res ''id''} else {})"
    by (rule hourSet_addResource[OF s1])
  have b: "rid \<in> hourSet m' h \<longleftrightarrow>
     rid \<in> hourSet m1 h \<or>
     (\<exists>res \<in> set rs. propOf res ''id'' = rid \<and>
        (\<exists>ts \<in> set (elementsOf (propOf res ''timeSlots'')). slotCovers dp ts h))"
    by (rule Cons.IH[OF s2])
  show ?case unfolding b a by auto
qed

lemma useAvailability_hourSet:
  assumes "useAvailability dp resp = Inr m"
  shows "rid \<in> hourSet m h \<longleftrightarrow>
     (\<exists>res \<in> set (elementsOf (propOf resp ''resources'')). propOf res ''id'' = rid \<and>
        (\<exists>ts \<in> set (elementsOf (propOf res ''timeSlots'')). slotCovers dp ts h))"
proof -
  from assms obtain rs where it: "iterate (orEmptyArray (propOf resp ''resources'')) = Inr rs"
    and run: "addResources dp rs Map.empty = Inr m"
    by (auto simp: useAvailability_def getProp_def split: if_splits sum.splits)
  from it have "elementsOf (propOf resp ''resources'') = rs" by (simp add: elementsOf_def)
  with hourSet_addResources[OF run, of rid h] show ?thesis by (simp add: hourSet_def)
qed

lemma matchHour_skip:
  "4 \<le> length xs \<Longrightarrow> xs ! 1 \<noteq> CHR '':'' \<Longrightarrow> matchHour (x # xs) = matchHour xs"
proof -
  assume len: "4 \<le> length xs" and nc: "xs ! 1 \<noteq> CHR '':''"
  then obtain p q r t rest where xs: "xs = p # q # r # t # rest"
    by (auto simp: Suc_le_length_iff eval_nat_numeral)
  with nc show ?thesis by simp
qed

lemma matchHour_prefix:
  "CHR '':'' \<notin> set pre \<Longrightarrow> isDigit a \<Longrightarrow> isDigit b \<Longrightarrow> isDigit c \<Longrightarrow> isDigit d \<Longrightarrow>
   matchHour (pre @ a # b # CHR '':'' # c # d # rest) = Some (10 * digitVal a + digitVal b)"
proof (induction pre)
  case Nil
  then show ?case by simp
next
  case (Cons x pre)
  have nd: "\<not> isDigit (CHR '':'')" by (simp add: isDigit_def)
  let ?xs = "pre @ a # b # CHR '':'' # c # d # rest"
  have "?xs ! 1 \<noteq> CHR '':''"
  proof (cases pre)
    case Nil
    with Cons.prems nd show ?thesis by auto
  next
    case outer: (Cons y pre')
    show ?thesis
    proof (cases pre')
      case Nil
      with outer Cons.prems nd show ?thesis by auto
    next
      case (Cons z pre'')
      with outer Cons.prems show ?thesis by auto
    qed
  qed
  then have "matchHour (x # ?xs) = matchHour ?xs"
    by (intro matchHour_skip) simp_all
  with Cons show ?case by simp
qed

subsection \<open>Responses of the expected shape are reduced without error\<close>

lemma parseHour_string: "\<exists>v. parseHour dp (Some (JStr s)) = Inr v"
  by (simp add: parseHour_def split: option.splits)

lemma addSlot_shaped: "slotShaped ts \<Longrightarrow> \<exists>m'. addSlot dp rid ts m = Inr m'"
  by (auto simp: slotShaped_def addSlot_def getProp_def parseHour_def isString_def
           split: option.splits json.splits)

lemma addSlots_shaped: "list_all slotShaped tss \<Longrightarrow> \<exists>m'. addSlots dp rid tss m = Inr m'"
proof (induction tss arbitrary: m)
  case Nil
  then show ?case by simp
next
  case (Cons ts tss)
  then obtain m1 where "addSlot dp rid ts m = Inr m1"
    using addSlot_shaped[of ts dp rid m] by auto
  with Cons show ?case by simp
qed

lemma addResource_shaped: "resourceShaped res \<Longrightarrow> \<exists>m'. addResource dp res m = Inr m'"
proof -
  assume sh: "resourceShaped res"
  then obtain tss where it: "iterate (orEmptyArray (propOf res ''timeSlots'')) = Inr tss"
    by (auto simp: resourceShaped_def iterableOrAbsent_def split: sum.splits)
  with sh have "list_all slotShaped tss" by (simp add: resourceShaped_def elementsOf_def)
  then obtain m' where "addSlots dp (propOf res ''id'') tss m = Inr m'"
    using addSlots_shaped by blast
  with sh it show ?thesis by (simp add: addResource_def getProp_def resourceShaped_def)
qed

lemma addResources_shaped: "list_all resourceShaped rs \<Longrightarrow> \<exists>m'. addResources dp rs m = Inr m'"
proof (induction rs arbitrary: m)
  case Nil
  then show ?case by simp
next
  case (Cons res rs)
  then obtain m1 where "addResource dp res m = Inr m1"
    using addResource_shaped[of res dp m] by auto
  with Cons show ?case by simp
qed

lemma useAvailability_shaped: "responseShaped resp \<Longrightarrow> \<exists>m. useAvailability dp resp = Inr m"
proof -
  assume sh: "responseShaped resp"
  then obtain rs where it: "iterate (orEmptyArray (propOf resp ''resources'')) = Inr rs"
    by (auto simp: responseShaped_def iterableOrAbsent_def split: sum.splits)
  with sh have "list_all resourceShaped rs" by (simp add: responseShaped_def elementsOf_def)
  then obtain m where "addResources dp rs Map.empty = Inr m"
    using addResources_shaped by blast
  with sh it show ?thesis by (simp add: useAvailability_def getProp_def responseShaped_def)
qed

text \<open>
  C4.  When the reduction returns a map, resource id \<open>rid\<close> is in the set for hour \<open>h\<close>
  exactly when the response holds a resource with that id and a time slot of it with
  status \<open>available\<close> whose extracted start hour is at most \<open>h\<close> and whose extracted end
  hour is above \<open>h\<close>.  The hour is extracted from \<open>HH:MM\<close> and from a timestamp alike: the
  two digits before the first colon that has two digits on both sides (no colon before
  them), and the UTC hour of the parsed date where no such place exists.
\<close>

theorem useAvailability_available_hours:
  "(useAvailability dp resp = Inr m \<longrightarrow>
      (rid \<in> hourSet m h \<longleftrightarrow>
        (\<exists>res \<in> set (elementsOf (propOf resp ''resources'')). propOf res ''id'' = rid \<and>
           (\<exists>ts \<in> set (elementsOf (propOf res ''timeSlots'')). slotCovers dp ts h))))
   \<and> (CHR '':'' \<notin> set pre \<and> isDigit a \<and> isDigit b \<and> isDigit c \<and> isDigit d \<longrightarrow>
        parseHour dp (Some (JStr (pre @ a # b # CHR '':'' # c # d # rest))) =
          Inr (Some (10 * digitVal a + digitVal b)))
   \<and> (matchHour s = None \<and> dp s = Some ms \<longrightarrow>
        parseHour dp (Some (JStr s)) = Inr (Some (getUTCHours ms)))"
proof (intro conjI impI)
  assume "useAvailability dp resp = Inr m"
  then show "rid \<in> hourSet m h \<longleftrightarrow>
        (\<exists>res \<in> set (elementsOf (propOf resp ''resources'')). propOf res ''id'' = rid \<and>
           (\<exists>ts \<in> set (elementsOf (propOf res ''timeSlots'')). slotCovers dp ts h))"
    by (rule useAvailability_hourSet)
next
  assume "CHR '':'' \<notin> set pre \<and> isDigit a \<and> isDigit b \<and> isDigit c \<and> isDigit d"
  then have "matchHour (pre @ a # b # CHR '':'' # c # d # rest) = Some (10 * digitVal a + digitVal b)"
    by (simp add: matchHour_prefix)
  then show "parseHour dp (Some (JStr (pre @ a # b # CHR '':'' # c # d # rest))) =
          Inr (Some (10 * digitVal a + digitVal b))"
    by (simp add: parseHour_def)
next
  assume "matchHour s = None \<and> dp s = Some ms"
  then show "parseHour dp (Some (JStr s)) = Inr (Some (getUTCHours ms))"
    by (simp add: parseHour_def)
qed

text \<open>
  On the example response the reduction returns a map in which \<open>r1\<close> is free at 11 and
  not at 12 and \<open>r2\<close> is free at 10; the hour of \<open>2025-11-03T10:00:00Z\<close> is 10 and that
  of the date \<open>2025-11-03\<close> is 0.
\<close>

theorem useAvailability_available_hours_witness:
  "\<exists>m. useAvailability isoTable demoResponse = Inr m \<and>
       Some (JStr ''r1'') \<in> hourSet m 11 \<and> Some (JStr ''r1'') \<notin> hourSet m 12 \<and>
       Some (JStr ''r2'') \<in> hourSet m 10 \<and>
       parseHour isoTable (Some (JStr ''2025-11-03T10:00:00Z'')) = Inr (Some 10) \<and>
       parseHour isoTable (Some (JStr ''2025-11-03'')) = Inr (Some 0)"
proof -
  have "responseShaped demoResponse" by code_simp
  then obtain m where m: "useAvailability isoTable demoResponse = Inr m"
    using useAvailability_shaped by blast
  have r11: "\<exists>res \<in> set (elementsOf (propOf demoResponse ''resources'')).
      propOf res ''id'' = Some (JStr ''r1'') \<and>
      (\<exists>ts \<in> set (elementsOf (propOf res ''timeSlots'')). slotCovers isoTable ts 11)"
    by code_simp
  have r12: "\<not> (\<exists>res \<in> set (elementsOf (propOf demoResponse ''resources'')).
      propOf res ''id'' = Some (JStr ''r1'') \<and>
      (\<exists>ts \<in> set (elementsOf (propOf res ''timeSlots'')). slotCovers isoTable ts 12))"
    by code_simp
  have r10: "\<exists>res \<in> set (elementsOf (propOf demoResponse ''resources'')).
      propOf res ''id'' = Some (JStr ''r2'') \<and>
      (\<exists>ts \<in> set (elementsOf (propOf res ''timeSlots'')). slotCovers isoTable ts 10)"
    by code_simp
  have d: "CHR '':'' \<notin> set ''2025-11-03T'' \<and> isDigit CHR ''1'' \<and> isDigit CHR ''0'' \<and>
      isDigit CHR ''0'' \<and> isDigit CHR ''0''"
    by code_simp
  have f: "matchHour ''2025-11-03'' = None \<and> isoTable ''2025-11-03'' = Some 1762128000000"
    by code_simp
  have v: "10 * digitVal CHR ''1'' + digitVal CHR ''0'' = 10" "getUTCHours 1762128000000 = 0"
    by code_simp+
  note t1 = useAvailability_available_hours [where dp = isoTable and resp = demoResponse and m = m
      and h = 11 and rid = "Some (JStr ''r1'')" and pre = "''2025-11-03T''" and a = "CHR ''1''"
      and b = "CHR ''0''" and c = "CHR ''0''" and d = "CHR ''0''" and rest = "'':00Z''"
      and s = "''2025-11-03''" and ms = 1762128000000]
  note t2 = useAvailability_available_hours [where dp = isoTable and resp = demoResponse and m = m
      and h = 12 and rid = "Some (JStr ''r1'')" and pre = "[]" and s = "[]"]
  note t3 = useAvailability_available_hours [where dp = isoTable and resp = demoResponse and m = m
      and h = 10 and rid = "Some (JStr ''r2'')" and pre = "[]" and s = "[]"]
  have "Some (JStr ''r1'') \<in> hourSet m 11" using t1 m r11 by blast
  moreover have "Some (JStr ''r1'') \<notin> hourSet m 12" using t2 m r12 by blast
  moreover have "Some (JStr ''r2'') \<in> hourSet m 10" using t3 m r10 by blast
  moreover have "parseHour isoTable (Some (JStr ''2025-11-03T10:00:00Z'')) = Inr (Some 10)"
    using t1 d v by simp
  moreover have "parseHour isoTable (Some (JStr ''2025-11-03'')) = Inr (Some 0)"
    using t1 f v by simp
  ultimately show ?thesis using m by blast
qed

text \<open>
  C10, as stated, fails: a slot reported available that has no \<open>startTime\<close> makes
  \<open>parseHour\<close> call \<open>match\<close> on \<open>undefined\<close>, and the reduction ends in a \<open>TypeError\<close>.
\<close>

theorem useAvailability_missing_startTime_raises:
  "useAvailability isoTable missingStartResponse = Inl TypeError"
  by (simp add: useAvailability_def missingStartResponse_def getProp_def propOf_def orEmptyArray_def
      truthy_def iterate_def addResource_def addSlot_def parseHour_def)

text \<open>
  C10, amended.  The reduction raises no error on a response of the expected shape (no
  \<open>null\<close> where a property is read, \<open>resources\<close> and \<open>timeSlots\<close> absent or iterable,
  string boundaries on every slot reported available).  A response without \<open>resources\<close>
  gives the empty map, a resource without \<open>timeSlots\<close> leaves the map as it is, and so
  does a slot one of whose boundary strings neither shows \<open>HH:MM\<close> nor parses as a date.
\<close>

theorem useAvailability_total_on_shaped:
  "(responseShaped resp \<longrightarrow> (\<exists>m'. useAvailability dp resp = Inr m'))
   \<and> (resp \<noteq> JNull \<and> propOf resp ''resources'' = None \<longrightarrow> useAvailability dp resp = Inr Map.empty)
   \<and> (res \<noteq> JNull \<and> propOf res ''timeSlots'' = None \<longrightarrow> addResource dp res m = Inr m)
   \<and> (ts \<noteq> JNull \<and> propOf ts ''startTime'' = Some (JStr s) \<and> propOf ts ''endTime'' = Some (JStr e) \<and>
        (matchHour s = None \<and> dp s = None \<or> matchHour e = None \<and> dp e = None)
      \<longrightarrow> addSlot dp rid ts m = Inr m)"
proof (intro conjI impI)
  assume "responseShaped resp"
  then show "\<exists>m'. useAvailability dp resp = Inr m'" by (rule useAvailability_shaped)
next
  assume "resp \<noteq> JNull \<and> propOf resp ''resources'' = None"
  then show "useAvailability dp resp = Inr Map.empty"
    by (simp add: useAvailability_def getProp_def orEmptyArray_def truthy_def iterate_def)
next
  assume "res \<noteq> JNull \<and> propOf res ''timeSlots'' = None"
  then show "addResource dp res m = Inr m"
    by (simp add: addResource_def getProp_def orEmptyArray_def truthy_def iterate_def)
next
  assume a: "ts \<noteq> JNull \<and> propOf ts ''startTime'' = Some (JStr s) \<and> propOf ts ''endTime'' = Some (JStr e) \<and>
        (matchHour s = None \<and> dp s = None \<or> matchHour e = None \<and> dp e = None)"
  then have "parseHour dp (Some (JStr s)) = Inr None \<or> parseHour dp (Some (JStr e)) = Inr None"
    by (auto simp: parseHour_def)
  moreover obtain sh eh where "parseHour dp (Some (JStr s)) = Inr sh" "parseHour dp (Some (JStr e)) = Inr eh"
    using parseHour_string by blast
  ultimately show "addSlot dp rid ts m = Inr m"
    using a by (auto simp: addSlot_def getProp_def split: option.splits)
qed

text \<open>
  The example response has the expected shape and is reduced to a map; the empty object
  gives the empty map; resource \<open>r3\<close>, which has no time slots, and the slot from
  \<open>soon\<close> to \<open>later\<close> add nothing.
\<close>

theorem useAvailability_total_on_shaped_witness:
  "responseShaped demoResponse \<and> (\<exists>m'. useAvailability isoTable demoResponse = Inr m') \<and>
   useAvailability isoTable (JObj []) = Inr Map.empty \<and>
   addResource isoTable (JObj [(''id'', JStr ''r3'')]) Map.empty = Inr Map.empty \<and>
   addSlot isoTable (Some (JStr ''r2''))
     (JObj [(''startTime'', JStr ''soon''), (''endTime'', JStr ''later''), (''status'', JStr ''available'')])
     Map.empty = Inr Map.empty"
proof -
  let ?ts = "JObj [(''startTime'', JStr ''soon''), (''endTime'', JStr ''later''), (''status'', JStr ''available'')]"
  have h1: "responseShaped demoResponse" by code_simp
  have h2: "JObj [] \<noteq> JNull \<and> propOf (JObj []) ''resources'' = None" by code_simp
  have h3: "JObj [(''id'', JStr ''r3'')] \<noteq> JNull \<and> propOf (JObj [(''id'', JStr ''r3'')]) ''timeSlots'' = None"
    by code_simp
  have h4: "?ts \<noteq> JNull \<and> propOf ?ts ''startTime'' = Some (JStr ''soon'') \<and>
      propOf ?ts ''endTime'' = Some (JStr ''later'') \<and>
      (matchHour ''soon'' = None \<and> isoTable ''soon'' = None \<or>
       matchHour ''later'' = None \<and> isoTable ''later'' = None)"
    by code_simp
  note t1 = useAvailability_total_on_shaped [where resp = demoResponse and dp = isoTable
      and res = "JObj [(''id'', JStr ''r3'')]" and m = Map.empty and ts = ?ts and s = "''soon''"
      and e = "''later''" and rid = "Some (JStr ''r2'')"]
  note t2 = useAvailability_total_on_shaped [where resp = "JObj []" and dp = isoTable
      and res = "JObj [(''id'', JStr ''r3'')]" and m = Map.empty and ts = ?ts and s = "''soon''"
      and e = "''later''" and rid = "Some (JStr ''r2'')"]
  from t1 h1 have "\<exists>m'. useAvailability isoTable demoResponse = Inr m'" by blast
  moreover from t2 h2 have "useAvailability isoTable (JObj []) = Inr Map.empty" by blast
  moreover from t1 h3 have "addResource isoTable (JObj [(''id'', JStr ''r3'')]) Map.empty = Inr Map.empty"
    by blast
  moreover from t1 h4 have "addSlot isoTable (Some (JStr ''r2'')) ?ts Map.empty = Inr Map.empty"
    by blast
  ultimately show ?thesis using h1 by blast
qed

section \<open>Authenticated requests\<close>

subsection \<open>What the token functions leave unchanged\<close>

lemma getAccessToken_frame:
  "sent (snd (getAccessToken w)) = sent w"
  "window (snd (getAccessToken w)) = window w"
  "refreshToken (snd (getAccessToken w)) = refreshToken w"
  "envApiUrl (snd (getAccessToken w)) = envApiUrl w"
  by (auto simp: getAccessToken_def split: option.splits)

lemma getRefreshToken_frame:
  "sent (snd (getRefreshToken w)) = sent w"
  "window (snd (getRefreshToken w)) = window w"
  "envApiUrl (snd (getRefreshToken w)) = envApiUrl w"
  by (auto simp: getRefreshToken_def split: option.splits)

lemma getRefreshToken_cong:
  "refreshToken w' = refreshToken w \<Longrightarrow> window w' = window w \<Longrightarrow>
   fst (getRefreshToken w') = fst (getRefreshToken w)"
  by (auto simp: getRefreshToken_def split: option.splits)

lemma getBaseUrl_cong:
  "window w' = window w \<Longrightarrow> envApiUrl w' = envApiUrl w \<Longrightarrow> getBaseUrl w' = getBaseUrl w"
  by (simp add: getBaseUrl_def Let_def split: option.splits)

lemma renewalRequest_cong:
  "window w' = window w \<Longrightarrow> envApiUrl w' = envApiUrl w \<Longrightarrow>
   renewalRequest host w' rt = renewalRequest host w rt"
  using getBaseUrl_cong[of w' w] by (simp add: renewalRequest_def)

lemma getAccessToken_setTokens: "fst (getAccessToken (setTokens a r w)) = Some a"
  by (auto simp: getAccessToken_def setTokens_def storeItem_def truthyString_def split: option.splits)

lemma getAccessToken_setTokens_sent: "sent (snd (getAccessToken (setTokens a r w))) = sent w"
  by (simp add: getAccessToken_frame setTokens_def)

lemma refresh_success:
  assumes "fst (getRefreshToken w) = Some rt" "rt \<noteq> []"
    and "net (sent w) (renewalRequest host w rt) = Some r2" "ok r2"
    and "readTokens host (bodyText r2) = Some (a, r)"
  shows "refreshAccessToken host net w =
           (True, setTokens a r ((snd (getRefreshToken w))\<lparr> sent := sent w @ [renewalRequest host w rt] \<rparr>))"
proof -
  obtain t w1 where g: "getRefreshToken w = (t, w1)" by (cases "getRefreshToken w")
  with assms(1) have t: "t = Some rt" by simp
  have fr: "sent w1 = sent w" "window w1 = window w" "envApiUrl w1 = envApiUrl w"
    using getRefreshToken_frame[of w] g by simp_all
  have rq: "renewalRequest host w1 rt = renewalRequest host w rt"
    using fr by (intro renewalRequest_cong) simp_all
  show ?thesis
    using assms(2-) g t fr(1) rq
    by (simp add: refreshAccessToken_def fetch_def truthyString_def)
qed

lemma refresh_no_token:
  assumes "\<not> truthyString (fst (getRefreshToken w))"
  shows "refreshAccessToken host net w = (False, snd (getRefreshToken w))"
  using assms by (auto simp: refreshAccessToken_def split: prod.splits)

lemma authFetch_unfold:
  "authFetch host net u options w =
     (let w1 = snd (getAccessToken w);
          req1 = firstRequest u options w;
          w2 = w1\<lparr> sent := sent w @ [req1] \<rparr>
      in case net (sent w) req1 of
           None \<Rightarrow> (Inl FetchFailed, w2)
         | Some response \<Rightarrow>
             if statusCode response = 401
             then (if fst (refreshAccessToken host net w2)
                   then (let w3 = snd (refreshAccessToken host net w2);
                             w4 = snd (getAccessToken w3);
                             req2 = mkRequest u options
                                (setHeader ''Authorization'' (bearer (fst (getAccessToken w3)))
                                   (firstHeaders options (fst (getAccessToken w))));
                             w5 = w4\<lparr> sent := sent w4 @ [req2] \<rparr>
                         in case net (sent w4) req2 of
                              None \<Rightarrow> (Inl FetchFailed, w5)
                            | Some response2 \<Rightarrow> (handleResponse host response2, w5))
                   else (Inl (Thrown sessionExpired),
                         redirectToLogin (clearTokens (snd (refreshAccessToken host net w2)))))
             else (handleResponse host response, w2))"
  by (simp add: authFetch_def firstRequest_def fetch_def Let_def case_prod_beta getAccessToken_frame
           cong: option.case_cong if_cong)

lemma afterFirst_frame:
  "sent (afterFirst u options w) = sent w @ [firstRequest u options w]"
  "window (afterFirst u options w) = window w"
  "refreshToken (afterFirst u options w) = refreshToken w"
  "envApiUrl (afterFirst u options w) = envApiUrl w"
  by (simp_all add: afterFirst_def getAccessToken_frame)

lemma afterFirst_refreshToken:
  "fst (getRefreshToken (afterFirst u options w)) = storedRefreshToken w"
  unfolding storedRefreshToken_def
  by (rule getRefreshToken_cong) (simp_all add: afterFirst_frame)

lemma authFetch_401:
  assumes "net (sent w) (firstRequest u options w) = Some r1" "statusCode r1 = 401"
  shows "authFetch host net u options w =
     (let w2 = afterFirst u options w in
      if fst (refreshAccessToken host net w2)
      then (let w3 = snd (refreshAccessToken host net w2);
                w4 = snd (getAccessToken w3);
                req2 = mkRequest u options
                   (setHeader ''Authorization'' (bearer (fst (getAccessToken w3)))
                      (firstHeaders options (fst (getAccessToken w))));
                w5 = w4\<lparr> sent := sent w4 @ [req2] \<rparr>
            in case net (sent w4) req2 of
                 None \<Rightarrow> (Inl FetchFailed, w5)
               | Some response2 \<Rightarrow> (handleResponse host response2, w5))
      else (Inl (Thrown sessionExpired),
            redirectToLogin (clearTokens (snd (refreshAccessToken host net w2)))))"
  using assms by (simp add: authFetch_unfold afterFirst_def Let_def)

lemma authFetch_renewed:
  assumes first: "net (sent w) (firstRequest u options w) = Some r1" "statusCode r1 = 401"
    and tok: "storedRefreshToken w = Some rt" "rt \<noteq> []"
    and ren: "net (sent w @ [firstRequest u options w]) (renewalRequest host w rt) = Some r2" "ok r2"
      "readTokens host (bodyText r2) = Some (a, r)"
  shows "sent (snd (authFetch host net u options w)) =
           sent w @ [firstRequest u options w, renewalRequest host w rt, retryRequest u options w a]"
    and "fst (authFetch host net u options w) =
           (case net (sent w @ [firstRequest u options w, renewalRequest host w rt]) (retryRequest u options w a) of
              None \<Rightarrow> Inl FetchFailed
            | Some r3 \<Rightarrow> handleResponse host r3)"
    and "accessToken (snd (authFetch host net u options w)) = Some a"
    and "refreshToken (snd (authFetch host net u options w)) = Some r"
proof -
  let ?w2 = "afterFirst u options w"
  have rq: "renewalRequest host ?w2 rt = renewalRequest host w rt"
    by (rule renewalRequest_cong) (simp_all add: afterFirst_frame)
  have "refreshAccessToken host net ?w2 =
      (True, setTokens a r ((snd (getRefreshToken ?w2))\<lparr> sent := sent ?w2 @ [renewalRequest host ?w2 rt] \<rparr>))"
    using tok ren rq by (intro refresh_success) (simp_all add: afterFirst_refreshToken afterFirst_frame)
  then have ref: "refreshAccessToken host net ?w2 =
      (True, setTokens a r ((snd (getRefreshToken ?w2))
         \<lparr> sent := sent w @ [firstRequest u options w, renewalRequest host w rt] \<rparr>))"
    by (simp add: rq afterFirst_frame)
  let ?w3 = "setTokens a r ((snd (getRefreshToken ?w2))
         \<lparr> sent := sent w @ [firstRequest u options w, renewalRequest host w rt] \<rparr>)"
  have t3: "fst (getAccessToken ?w3) = Some a" by (rule getAccessToken_setTokens)
  have s4: "sent (snd (getAccessToken ?w3)) = sent w @ [firstRequest u options w, renewalRequest host w rt]"
    by (simp add: getAccessToken_setTokens_sent)
  have a4: "accessToken (snd (getAccessToken ?w3)) = Some a" "refreshToken (snd (getAccessToken ?w3)) = Some r"
    by (auto simp: getAccessToken_def setTokens_def storeItem_def truthyString_def split: option.splits)
  have unf: "authFetch host net u options w =
      (case net (sent w @ [firstRequest u options w, renewalRequest host w rt]) (retryRequest u options w a) of
         None \<Rightarrow> (Inl FetchFailed, (snd (getAccessToken ?w3))
                    \<lparr> sent := sent w @ [firstRequest u options w, renewalRequest host w rt] @ [retryRequest u options w a] \<rparr>)
       | Some response2 \<Rightarrow> (handleResponse host response2, (snd (getAccessToken ?w3))
                    \<lparr> sent := sent w @ [firstRequest u options w, renewalRequest host w rt] @ [retryRequest u options w a] \<rparr>))"
    using first by (simp add: authFetch_401 ref t3 s4 Let_def bearer_def retryRequest_def cong: option.case_cong)
  show "sent (snd (authFetch host net u options w)) =
           sent w @ [firstRequest u options w, renewalRequest host w rt, retryRequest u options w a]"
    unfolding unf by (simp split: option.splits)
  show "fst (authFetch host net u options w) =
           (case net (sent w @ [firstRequest u options w, renewalRequest host w rt]) (retryRequest u options w a) of
              None \<Rightarrow> Inl FetchFailed
            | Some r3 \<Rightarrow> handleResponse host r3)"
    unfolding unf by (simp split: option.splits)
  show "accessToken (snd (authFetch host net u options w)) = Some a"
    unfolding unf using a4 by (simp split: option.splits)
  show "refreshToken (snd (authFetch host net u options w)) = Some r"
    unfolding unf using a4 by (simp split: option.splits)
qed

lemma refresh_fails:
  assumes "\<not> truthyString (fst (getRefreshToken w)) \<or>
      (case net (sent w) (renewalRequest host w (the (fst (getRefreshToken w)))) of
         None \<Rightarrow> True
       | Some r2 \<Rightarrow> \<not> ok r2 \<or> readTokens host (bodyText r2) = None)"
  shows "\<not> fst (refreshAccessToken host net w)"
proof -
  obtain t w1 where g: "getRefreshToken w = (t, w1)" by (cases "getRefreshToken w")
  have fr: "sent w1 = sent w" "window w1 = window w" "envApiUrl w1 = envApiUrl w"
    using getRefreshToken_frame[of w] g by simp_all
  have rq: "renewalRequest host w1 (the t) = renewalRequest host w (the t)"
    using fr by (intro renewalRequest_cong) simp_all
  show ?thesis
    using assms g fr(1) rq
    by (auto simp: refreshAccessToken_def fetch_def split: option.splits)
qed

lemma refresh_window:
  "(window (snd (refreshAccessToken host net w)) = None) = (window w = None)"
proof -
  obtain t w1 where g: "getRefreshToken w = (t, w1)" by (cases "getRefreshToken w")
  have fr: "window w1 = window w"
    using getRefreshToken_frame[of w] g by simp
  show ?thesis
    using g fr
    by (auto simp: refreshAccessToken_def fetch_def clearTokens_def setTokens_def split: option.splits)
qed

lemma refresh_no_token_sent:
  assumes "\<not> truthyString (fst (getRefreshToken w))"
  shows "sent (snd (refreshAccessToken host net w)) = sent w"
  using assms by (simp add: refresh_no_token getRefreshToken_frame)

lemma cleared:
  "accessToken (redirectToLogin (clearTokens w)) = None"
  "refreshToken (redirectToLogin (clearTokens w)) = None"
  "sent (redirectToLogin (clearTokens w)) = sent w"
  "(window (redirectToLogin (clearTokens w)) = None) = (window w = None)"
  "window (redirectToLogin (clearTokens w)) = Some b \<Longrightarrow>
     localStorage b ''accessToken'' = None \<and> localStorage b ''refreshToken'' = None \<and>
     localStorage b ''user'' = None \<and> href b = ''/login''"
  by (auto simp: redirectToLogin_def clearTokens_def storeItem_def)

lemma authFetch_expired:
  assumes first: "net (sent w) (firstRequest u options w) = Some r1" "statusCode r1 = 401"
    and fails: "renewalFails host net u options w"
  shows "authFetch host net u options w =
     (Inl (Thrown sessionExpired),
      redirectToLogin (clearTokens (snd (refreshAccessToken host net (afterFirst u options w)))))"
proof -
  let ?w2 = "afterFirst u options w"
  have rq: "renewalRequest host ?w2 (the (storedRefreshToken w)) = renewalRequest host w (the (storedRefreshToken w))"
    by (rule renewalRequest_cong) (simp_all add: afterFirst_frame)
  have "\<not> fst (refreshAccessToken host net ?w2)"
    using fails by (intro refresh_fails) (simp add: renewalFails_def afterFirst_refreshToken afterFirst_frame rq)
  then show ?thesis
    using first by (simp add: authFetch_401 Let_def)
qed

subsection \<open>Renewal after a 401\<close>

text \<open>
  C5.  When the first response has status 401: if a refresh token is stored and the
  renewal request is answered with a success status and a readable body, the requests
  sent are the first attempt, one renewal request and one retry carrying the new access
  token, in this order and no others, and the outcome is that of the retry; if no refresh
  token is stored, the first attempt is the only request sent and the call fails with the
  session-expired error.
\<close>

theorem authFetch_renewal_on_401:
  "(net (sent w) (firstRequest u options w) = Some r1 \<and> statusCode r1 = 401 \<and>
    storedRefreshToken w = Some rt \<and> rt \<noteq> [] \<and>
    net (sent w @ [firstRequest u options w]) (renewalRequest host w rt) = Some r2 \<and> ok r2 \<and>
    readTokens host (bodyText r2) = Some (a, r) \<longrightarrow>
      sent (snd (authFetch host net u options w)) =
        sent w @ [firstRequest u options w, renewalRequest host w rt, retryRequest u options w a] \<and>
      fst (authFetch host net u options w) =
        (case net (sent w @ [firstRequest u options w, renewalRequest host w rt]) (retryRequest u options w a) of
           None \<Rightarrow> Inl FetchFailed
         | Some r3 \<Rightarrow> handleResponse host r3))
   \<and> (net (sent w) (firstRequest u options w) = Some r1 \<and> statusCode r1 = 401 \<and>
      \<not> truthyString (storedRefreshToken w) \<longrightarrow>
      sent (snd (authFetch host net u options w)) = sent w @ [firstRequest u options w] \<and>
      fst (authFetch host net u options w) = Inl (Thrown sessionExpired))"
proof (intro conjI impI)
  assume a: "net (sent w) (firstRequest u options w) = Some r1 \<and> statusCode r1 = 401 \<and>
    storedRefreshToken w = Some rt \<and> rt \<noteq> [] \<and>
    net (sent w @ [firstRequest u options w]) (renewalRequest host w rt) = Some r2 \<and> ok r2 \<and>
    readTokens host (bodyText r2) = Some (a, r)"
  then show "sent (snd (authFetch host net u options w)) =
        sent w @ [firstRequest u options w, renewalRequest host w rt, retryRequest u options w a]"
    using authFetch_renewed(1)[of net w u options r1 rt host r2 a r] by blast
  from a show "fst (authFetch host net u options w) =
        (case net (sent w @ [firstRequest u options w, renewalRequest host w rt]) (retryRequest u options w a) of
           None \<Rightarrow> Inl FetchFailed
         | Some r3 \<Rightarrow> handleResponse host r3)"
    using authFetch_renewed(2)[of net w u options r1 rt host r2 a r] by blast
next
  assume b: "net (sent w) (firstRequest u options w) = Some r1 \<and> statusCode r1 = 401 \<and>
      \<not> truthyString (storedRefreshToken w)"
  then have f: "renewalFails host net u options w" by (simp add: renewalFails_def)
  let ?w2 = "afterFirst u options w"
  have e: "authFetch host net u options w =
     (Inl (Thrown sessionExpired), redirectToLogin (clearTokens (snd (refreshAccessToken host net ?w2))))"
    using b f authFetch_expired[of net w u options r1 host] by blast
  have "\<not> truthyString (fst (getRefreshToken ?w2))"
    using b by (simp add: afterFirst_refreshToken)
  then have "sent (snd (refreshAccessToken host net ?w2)) = sent ?w2"
    by (rule refresh_no_token_sent)
  then show "sent (snd (authFetch host net u options w)) = sent w @ [firstRequest u options w]"
    unfolding e by (simp add: cleared(3) afterFirst_frame)
  show "fst (authFetch host net u options w) = Inl (Thrown sessionExpired)"
    unfolding e by simp
qed

text \<open>
  With the outdated token \<open>A1\<close> and the refresh token \<open>R1\<close>, a booking request is sent
  with \<open>A1\<close>, renewed once and retried once with \<open>A2\<close>, and succeeds; without a refresh
  token it is sent once and ends in the session-expired error.
\<close>

theorem authFetch_renewal_on_401_witness:
  "sent (snd (authFetch demoHost demoNet ''/api/bookings'' demoInit demoWorld)) =
     [\<lparr> url = ''/api/bookings'', httpMethod = Some ''POST'',
        headers = [(''Content-Type'', ''application/json''), (''Authorization'', ''Bearer A1'')],
        body = Some ''{resourceId: r1}'' \<rparr>,
      \<lparr> url = ''/api/auth/refresh'', httpMethod = Some ''POST'',
        headers = [(''Content-Type'', ''application/json'')],
        body = Some ''{refreshToken: R1}'' \<rparr>,
      \<lparr> url = ''/api/bookings'', httpMethod = Some ''POST'',
        headers = [(''Content-Type'', ''application/json''), (''Authorization'', ''Bearer A2'')],
        body = Some ''{resourceId: r1}'' \<rparr>] \<and>
   fst (authFetch demoHost demoNet ''/api/bookings'' demoInit demoWorld) = Inr (JObj []) \<and>
   sent (snd (authFetch demoHost demoNet ''/api/bookings'' demoInit signedOutWorld)) =
     [\<lparr> url = ''/api/bookings'', httpMethod = Some ''POST'',
        headers = [(''Content-Type'', ''application/json''), (''Authorization'', ''Bearer A1'')],
        body = Some ''{resourceId: r1}'' \<rparr>] \<and>
   fst (authFetch demoHost demoNet ''/api/bookings'' demoInit signedOutWorld) = Inl (Thrown sessionExpired)"
proof -
  let ?u = "''/api/bookings''"
  have h1: "demoNet (sent demoWorld) (firstRequest ?u demoInit demoWorld) = Some unauthorized \<and>
      statusCode unauthorized = 401 \<and>
      storedRefreshToken demoWorld = Some ''R1'' \<and> ''R1'' \<noteq> [] \<and>
      demoNet (sent demoWorld @ [firstRequest ?u demoInit demoWorld])
        (renewalRequest demoHost demoWorld ''R1'') = Some renewed \<and> ok renewed \<and>
      readTokens demoHost (bodyText renewed) = Some (''A2'', ''R2'')"
    by code_simp
  have h2: "demoNet (sent signedOutWorld) (firstRequest ?u demoInit signedOutWorld) = Some unauthorized \<and>
      statusCode unauthorized = 401 \<and> \<not> truthyString (storedRefreshToken signedOutWorld)"
    by code_simp
  note t1 = authFetch_renewal_on_401 [where net = demoNet and w = demoWorld and u = ?u
      and options = demoInit and ?r1.0 = unauthorized and rt = "''R1''" and host = demoHost
      and ?r2.0 = renewed and a = "''A2''" and r = "''R2''"]
  note t2 = authFetch_renewal_on_401 [where net = demoNet and w = signedOutWorld and u = ?u
      and options = demoInit and ?r1.0 = unauthorized and rt = "[]" and host = demoHost]
  have c1: "sent (snd (authFetch demoHost demoNet ?u demoInit demoWorld)) =
      sent demoWorld @ [firstRequest ?u demoInit demoWorld, renewalRequest demoHost demoWorld ''R1'',
        retryRequest ?u demoInit demoWorld ''A2'']"
    using t1 h1 by blast
  have c2: "fst (authFetch demoHost demoNet ?u demoInit demoWorld) =
      (case demoNet (sent demoWorld @ [firstRequest ?u demoInit demoWorld,
                renewalRequest demoHost demoWorld ''R1'']) (retryRequest ?u demoInit demoWorld ''A2'') of
         None \<Rightarrow> Inl FetchFailed
       | Some r3 \<Rightarrow> handleResponse demoHost r3)"
    using t1 h1 by blast
  have c3: "sent (snd (authFetch demoHost demoNet ?u demoInit signedOutWorld)) =
      sent signedOutWorld @ [firstRequest ?u demoInit signedOutWorld]"
    using t2 h2 by blast
  have c4: "fst (authFetch demoHost demoNet ?u demoInit signedOutWorld) = Inl (Thrown sessionExpired)"
    using t2 h2 by blast
  have e1: "sent demoWorld @ [firstRequest ?u demoInit demoWorld, renewalRequest demoHost demoWorld ''R1'',
        retryRequest ?u demoInit demoWorld ''A2''] =
     [\<lparr> url = ''/api/bookings'', httpMethod = Some ''POST'',
        headers = [(''Content-Type'', ''application/json''), (''Authorization'', ''Bearer A1'')],
        body = Some ''{resourceId: r1}'' \<rparr>,
      \<lparr> url = ''/api/auth/refresh'', httpMethod = Some ''POST'',
        headers = [(''Content-Type'', ''application/json'')],
        body = Some ''{refreshToken: R1}'' \<rparr>,
      \<lparr> url = ''/api/bookings'', httpMethod = Some ''POST'',
        headers = [(''Content-Type'', ''application/json''), (''Authorization'', ''Bearer A2'')],
        body = Some ''{resourceId: r1}'' \<rparr>]"
    by code_simp
  have e2: "(case demoNet (sent demoWorld @ [firstRequest ?u demoInit demoWorld,
                renewalRequest demoHost demoWorld ''R1'']) (retryRequest ?u demoInit demoWorld ''A2'') of
         None \<Rightarrow> Inl FetchFailed
       | Some r3 \<Rightarrow> handleResponse demoHost r3) = Inr (JObj [])"
    by code_simp
  have e3: "sent signedOutWorld @ [firstRequest ?u demoInit signedOutWorld] =
     [\<lparr> url = ''/api/bookings'', httpMethod = Some ''POST'',
        headers = [(''Content-Type'', ''application/json''), (''Authorization'', ''Bearer A1'')],
        body = Some ''{resourceId: r1}'' \<rparr>]"
    by code_simp
  show ?thesis
    unfolding c1 c2 c3 c4 e1 e2 e3 by simp
qed

text \<open>
  C6, as stated, fails on its last part: in a browser the failed renewal is followed by
  an assignment of \<open>/login\<close> to the location, made by \<open>authFetch\<close> itself.
\<close>

theorem authFetch_redirects_in_browser:
  "map_option href (window (snd (authFetch demoHost demoNet ''/api/bookings'' demoInit signedOutWorld)))
     = Some ''/login'' \<and>
   map_option href (window signedOutWorld) = Some ''/dashboard''"
  by code_simp

text \<open>
  C6, amended.  When the first response has status 401 and renewal fails, the call fails
  with the session-expired error, both token variables are empty, and where a browser
  window exists the stored access token, refresh token and user are removed and the
  location is \<open>/login\<close>; a window exists after the call exactly when one existed before.
\<close>

theorem authFetch_renewal_failure:
  "net (sent w) (firstRequest u options w) = Some r1 \<and> statusCode r1 = 401 \<and>
   renewalFails host net u options w \<longrightarrow>
     fst (authFetch host net u options w) = Inl (Thrown sessionExpired) \<and>
     accessToken (snd (authFetch host net u options w)) = None \<and>
     refreshToken (snd (authFetch host net u options w)) = None \<and>
     (window (snd (authFetch host net u options w)) = None \<longleftrightarrow> window w = None) \<and>
     (case window (snd (authFetch host net u options w)) of
        None \<Rightarrow> True
      | Some b \<Rightarrow> localStorage b ''accessToken'' = None \<and> localStorage b ''refreshToken'' = None \<and>
                  localStorage b ''user'' = None \<and> href b = ''/login'')"
proof
  assume a: "net (sent w) (firstRequest u options w) = Some r1 \<and> statusCode r1 = 401 \<and>
   renewalFails host net u options w"
  let ?w3 = "snd (refreshAccessToken host net (afterFirst u options w))"
  have e: "authFetch host net u options w = (Inl (Thrown sessionExpired), redirectToLogin (clearTokens ?w3))"
    using a authFetch_expired[of net w u options r1 host] by blast
  have w: "(window ?w3 = None) = (window w = None)"
    by (simp add: refresh_window afterFirst_frame)
  show "fst (authFetch host net u options w) = Inl (Thrown sessionExpired) \<and>
     accessToken (snd (authFetch host net u options w)) = None \<and>
     refreshToken (snd (authFetch host net u options w)) = None \<and>
     (window (snd (authFetch host net u options w)) = None \<longleftrightarrow> window w = None) \<and>
     (case window (snd (authFetch host net u options w)) of
        None \<Rightarrow> True
      | Some b \<Rightarrow> localStorage b ''accessToken'' = None \<and> localStorage b ''refreshToken'' = None \<and>
                  localStorage b ''user'' = None \<and> href b = ''/login'')"
    unfolding e using cleared(5)[of ?w3] w
    by (simp add: cleared(1,2,4) split: option.splits)
qed

text \<open>
  With a refresh token that the remote side refuses, the call ends in the session-expired
  error, and the browser has lost the tokens and the user and stands at \<open>/login\<close>.
\<close>

theorem authFetch_renewal_failure_witness:
  "refusingNet (sent demoWorld) (firstRequest ''/api/bookings'' demoInit demoWorld) = Some unauthorized \<and>
   statusCode unauthorized = 401 \<and>
   renewalFails demoHost refusingNet ''/api/bookings'' demoInit demoWorld \<and>
   fst (authFetch demoHost refusingNet ''/api/bookings'' demoInit demoWorld) = Inl (Thrown sessionExpired) \<and>
   accessToken (snd (authFetch demoHost refusingNet ''/api/bookings'' demoInit demoWorld)) = None \<and>
   refreshToken (snd (authFetch demoHost refusingNet ''/api/bookings'' demoInit demoWorld)) = None \<and>
   (\<exists>b. window (snd (authFetch demoHost refusingNet ''/api/bookings'' demoInit demoWorld)) = Some b \<and>
        localStorage b ''accessToken'' = None \<and> localStorage b ''refreshToken'' = None \<and>
        localStorage b ''user'' = None \<and> href b = ''/login'')"
proof -
  let ?w' = "snd (authFetch demoHost refusingNet ''/api/bookings'' demoInit demoWorld)"
  have h: "refusingNet (sent demoWorld) (firstRequest ''/api/bookings'' demoInit demoWorld) = Some unauthorized \<and>
      statusCode unauthorized = 401 \<and>
      renewalFails demoHost refusingNet ''/api/bookings'' demoInit demoWorld"
    by code_simp
  have w: "window demoWorld \<noteq> None" by code_simp
  note t = authFetch_renewal_failure [where net = refusingNet and w = demoWorld
        and u = "''/api/bookings''" and options = demoInit and ?r1.0 = unauthorized and host = demoHost]
  from t h have c: "fst (authFetch demoHost refusingNet ''/api/bookings'' demoInit demoWorld) =
        Inl (Thrown sessionExpired) \<and>
      accessToken ?w' = None \<and> refreshToken ?w' = None \<and>
      (window ?w' = None \<longleftrightarrow> window demoWorld = None) \<and>
      (case window ?w' of
         None \<Rightarrow> True
       | Some b \<Rightarrow> localStorage b ''accessToken'' = None \<and> localStorage b ''refreshToken'' = None \<and>
                   localStorage b ''user'' = None \<and> href b = ''/login'')"
    by (rule mp)
  with w obtain b where b: "window ?w' = Some b" by auto
  with c have "localStorage b ''accessToken'' = None \<and> localStorage b ''refreshToken'' = None \<and>
      localStorage b ''user'' = None \<and> href b = ''/login''"
    by simp
  with b c h show ?thesis by simp
qed

subsection \<open>Success responses\<close>

text \<open>
  C9.  For a response with a status from 200 to 299, \<open>handleResponse\<close> returns a value
  and throws nothing; where the body is empty or is not JSON the value is the empty
  object.
\<close>

theorem handleResponse_success_total:
  "(ok r \<and> (bodyText r = [] \<or> jsonParse host (bodyText r) = None) \<longrightarrow> handleResponse host r = Inr (JObj []))
   \<and> (ok r \<longrightarrow> (\<exists>v. handleResponse host r = Inr v))"
  by (auto simp: handleResponse_def split: option.splits)

text \<open>
  A 204 response without a body and a 200 response carrying a page of markup both give
  the empty object.
\<close>

theorem handleResponse_success_total_witness:
  "ok \<lparr> statusCode = 204, statusText = ''No Content'', bodyText = [] \<rparr> \<and>
   handleResponse demoHost \<lparr> statusCode = 204, statusText = ''No Content'', bodyText = [] \<rparr> = Inr (JObj []) \<and>
   ok \<lparr> statusCode = 200, statusText = ''OK'', bodyText = ''<html>'' \<rparr> \<and>
   jsonParse demoHost ''<html>'' = None \<and>
   handleResponse demoHost \<lparr> statusCode = 200, statusText = ''OK'', bodyText = ''<html>'' \<rparr> = Inr (JObj [])"
proof -
  let ?a = "\<lparr> statusCode = 204, statusText = ''No Content'', bodyText = [] \<rparr>"
  let ?b = "\<lparr> statusCode = 200, statusText = ''OK'', bodyText = ''<html>'' \<rparr>"
  have ha: "ok ?a \<and> (bodyText ?a = [] \<or> jsonParse demoHost (bodyText ?a) = None)" by code_simp
  have hb: "ok ?b \<and> (bodyText ?b = [] \<or> jsonParse demoHost (bodyText ?b) = None)" by code_simp
  have p: "jsonParse demoHost ''<html>'' = None" by code_simp
  show ?thesis
    using ha hb p handleResponse_success_total [where r = ?a and host = demoHost]
      handleResponse_success_total [where r = ?b and host = demoHost]
    by blast
qed

section \<open>Ledger-count trigger\<close>

lemma countEffects_length: "length (countEffects prev obs) = length obs"
  by (induction obs arbitrary: prev) simp_all

lemma countEffects_nth:
  "i < length obs \<Longrightarrow>
   countEffects prev obs ! i =
     (let p = (if i = 0 then prev else obs ! (i - 1)) in p \<noteq> None \<and> obs ! i \<noteq> p)"
proof (induction obs arbitrary: prev i)
  case Nil
  then show ?case by simp
next
  case (Cons c obs)
  show ?case
  proof (cases i)
    case 0
    then show ?thesis by (simp add: countEffect_def)
  next
    case (Suc j)
    with Cons.prems have "j < length obs" by simp
    from Cons.IH[OF this, of c] Suc show ?thesis
      by (cases j) (simp_all add: countEffect_def Let_def)
  qed
qed

lemma countEffects_stable: "countEffects (Some c) (replicate n (Some c)) = replicate n False"
  by (induction n) (simp_all add: countEffect_def)

text \<open>
  C8, as stated, fails where a read without data stands between two counts.  Over the
  reads 1, no data, 1 the effect fires at the second read although the count has not
  changed, and over 1, no data, 2 it does not fire at the changed count 2.
\<close>

theorem countEffects_null_between_counts:
  "countEffects None [Some 1, None, Some 1] = [False, True, False] \<and>
   countEffects None [Some 1, None, Some 2] = [False, True, False]"
  by code_simp

text \<open>
  C8, amended.  A run of the effect calls \<open>mutateAvailability\<close> exactly when the run
  before it read a count (the ref is not \<open>null\<close>) and the present read, a count or no
  data, differs from that count.  So it fires on no first run and on no run after a read
  without data; after a count it fires at a count exactly when the two differ, and at a
  read without data always.  Over reads that never lose the data, first \<open>k\<close> times no
  data and then the counts \<open>counts\<close>, it fires at no read without data, not at the first
  count, and at a later count exactly when that count differs from the one before.
  While the count stays the same it never fires, however often the effect runs.
\<close>

theorem countEffects_fires_on_change:
  "\<not> fst (countEffect None count)
   \<and> (fst (countEffect (Some p) (Some c)) \<longleftrightarrow> c \<noteq> p)
   \<and> fst (countEffect (Some p) None)
   \<and> snd (countEffect prev count) = count
   \<and> (j < k \<longrightarrow> \<not> countEffects None (replicate k None @ map Some counts) ! j)
   \<and> (i < length counts \<longrightarrow>
        (countEffects None (replicate k None @ map Some counts) ! (k + i) \<longleftrightarrow>
           0 < i \<and> counts ! i \<noteq> counts ! (i - 1)))
   \<and> countEffects (Some c) (replicate n (Some c)) = replicate n False
   \<and> (m < length obs \<longrightarrow>
        (countEffects prev obs ! m \<longleftrightarrow>
           (let p = (if m = 0 then prev else obs ! (m - 1)) in p \<noteq> None \<and> obs ! m \<noteq> p)))"
proof (intro conjI impI)
  assume "m < length obs"
  then show "countEffects prev obs ! m \<longleftrightarrow>
           (let p = (if m = 0 then prev else obs ! (m - 1)) in p \<noteq> None \<and> obs ! m \<noteq> p)"
    by (rule countEffects_nth)
next
  show "\<not> fst (countEffect None count)" by (simp add: countEffect_def)
  show "fst (countEffect (Some p) (Some c)) \<longleftrightarrow> c \<noteq> p" by (auto simp: countEffect_def)
  show "fst (countEffect (Some p) None)" by (simp add: countEffect_def)
  show "snd (countEffect prev count) = count" by (simp add: countEffect_def)
  show "countEffects (Some c) (replicate n (Some c)) = replicate n False" by (rule countEffects_stable)
next
  let ?obs = "replicate k None @ map Some counts"
  assume "j < k"
  then have jl: "j < length ?obs" by simp
  have "?obs ! j = None" using \<open>j < k\<close> by (simp add: nth_append)
  moreover have "j \<noteq> 0 \<Longrightarrow> ?obs ! (j - 1) = None" using \<open>j < k\<close> by (simp add: nth_append)
  ultimately show "\<not> countEffects None ?obs ! j"
    using countEffects_nth[OF jl, of None] by (auto simp: Let_def)
next
  let ?obs = "replicate k None @ map Some counts"
  assume il: "i < length counts"
  then have l: "k + i < length ?obs" by simp
  have cur: "?obs ! (k + i) = Some (counts ! i)" using il by (simp add: nth_append)
  show "countEffects None ?obs ! (k + i) \<longleftrightarrow> 0 < i \<and> counts ! i \<noteq> counts ! (i - 1)"
  proof (cases i)
    case 0
    have "k \<noteq> 0 \<Longrightarrow> ?obs ! (k - 1) = None" by (simp add: nth_append)
    with 0 cur show ?thesis
      using countEffects_nth[OF l, of None] by (auto simp: Let_def)
  next
    case (Suc i')
    with il have "?obs ! (k + i - 1) = Some (counts ! i')" by (simp add: nth_append)
    with Suc cur show ?thesis
      using countEffects_nth[OF l, of None] by (auto simp: Let_def)
  qed
qed

text \<open>
  Reads: no data, then 2, 2, 3, 3, 2.  Nothing fires while there is no data; the read of
  3 after 2 fires.
\<close>

theorem countEffects_fires_on_change_witness:
  "(0::nat) < 1 \<and> \<not> countEffects None (replicate 1 None @ map Some [2, 2, 3, 3, 2]) ! 0 \<and>
   (2::nat) < length [2, 2, 3, 3, 2 :: nat] \<and>
   countEffects None (replicate 1 None @ map Some [2, 2, 3, 3, 2]) ! (1 + 2)"
  using countEffects_fires_on_change [where k = 1 and j = 0 and i = 2 and counts = "[2, 2, 3, 3, 2]"]
  by simp

section \<open>Cache invalidation by the booking flow\<close>





lemma handleConfirm_failure:
  assumes "fst (createBooking host net (resourceIdent res) uid (toUtcIso tz date hour)
                  (toUtcIso tz date (hour + 1)) w) = Inl err"
  shows "snd (handleConfirm host net tz now (Some res) date hour uid (w, c)) = c"
  using assms by (simp add: handleConfirm_def case_prod_beta)















end
